theory Spec2Isabelle
  imports Complex_Main
begin

section \<open>The estimation engine of \<^verbatim>\<open>calculations.py\<close>\<close>

text \<open>
  The engine is four pure functions over nested dictionaries of numbers:
  \<^verbatim>\<open>calculate_materials\<close>, \<^verbatim>\<open>generate_plan_variants\<close>, \<^verbatim>\<open>calculate_cost\<close> and
  \<^verbatim>\<open>generate_boq\<close>. A dictionary is modelled as a map from strings (an association
  list where the insertion order is read back, as in \<^verbatim>\<open>sum(d.values())\<close>), a raised
  exception as the left summand of \<open>py_error + 'a\<close>.

  Numbers: Python's \<^verbatim>\<open>int\<close> and \<^verbatim>\<open>float\<close> are both modelled by \<^typ>\<open>real\<close>, with exact
  arithmetic. The decimal constants of the source (\<^verbatim>\<open>0.3048\<close>, \<^verbatim>\<open>1.08\<close>, ...) denote the
  reals they spell; the binary rounding error and the overflow of IEEE doubles are outside
  the model.
\<close>

subsection \<open>Exceptions and their propagation\<close>

text \<open>
  The exceptions of Python that the engine can raise, and \<open>NonFinite\<close>, which is no
  exception: it marks a run that produces an infinite float or a NaN, which the model does
  not follow.
\<close>

datatype py_error =
  KeyError string | ValueError | AttributeError | ZeroDivisionError | NonFinite

definition bind_res :: "py_error + 'a \<Rightarrow> ('a \<Rightarrow> py_error + 'b) \<Rightarrow> py_error + 'b" where
  "bind_res x f = (case x of Inl e \<Rightarrow> Inl e | Inr v \<Rightarrow> f v)"

text \<open>\<^verbatim>\<open>a / b\<close> on numbers raises \<^verbatim>\<open>ZeroDivisionError\<close> when \<^verbatim>\<open>b\<close> is zero.\<close>

definition py_div :: "real \<Rightarrow> real \<Rightarrow> py_error + real" where
  "py_div a b = (if b = 0 then Inl ZeroDivisionError else Inr (a / b))"

subsection \<open>Built-in numeric functions\<close>

text \<open>
  \<^verbatim>\<open>round(x, n)\<close> rounds to \<open>n\<close> decimals, a tie going to the even neighbour.
\<close>

definition round_half_even :: "real \<Rightarrow> int" where
  "round_half_even y =
     (let f = \<lfloor>y\<rfloor>; d = y - of_int f
      in if d < 1 / 2 then f else if 1 / 2 < d then f + 1
         else if even f then f else f + 1)"

definition py_round :: "nat \<Rightarrow> real \<Rightarrow> real" where
  "py_round n x = of_int (round_half_even (x * 10 ^ n)) / 10 ^ n"

text \<open>\<^verbatim>\<open>math.ceil\<close>, wrapped by the module's own \<^verbatim>\<open>ceil\<close>.\<close>

definition ceil :: "real \<Rightarrow> real" where
  "ceil x = of_int \<lceil>x\<rceil>"

text \<open>\<^verbatim>\<open>int(x)\<close> on a number truncates towards zero.\<close>

definition py_trunc :: "real \<Rightarrow> real" where
  "py_trunc x = (if 0 \<le> x then of_int \<lfloor>x\<rfloor> else of_int \<lceil>x\<rceil>)"

subsection \<open>The materials snapshot\<close>

text \<open>
  \<^verbatim>\<open>materials\<close> is a dictionary of sections (\<^verbatim>\<open>'concrete'\<close>, \<^verbatim>\<open>'cement'\<close>, ...), each a
  dictionary from quantity names to numbers.
\<close>

type_synonym quantities = "string \<rightharpoonup> real"
type_synonym materials = "string \<rightharpoonup> quantities"

text \<open>
  The access pattern \<^verbatim>\<open>materials.get(sec, {}).get(key, 0)\<close> of \<^verbatim>\<open>calculate_cost\<close> and
  \<^verbatim>\<open>generate_boq\<close>.
\<close>

definition getq :: "materials \<Rightarrow> string \<Rightarrow> string \<Rightarrow> real" where
  "getq m sec key =
     (case m sec of None \<Rightarrow> 0
      | Some s \<Rightarrow> (case s key of None \<Rightarrow> 0 | Some v \<Rightarrow> v))"

subsection \<open>The cost result and the bill of quantities\<close>

text \<open>
  A rate table and the dictionaries of costs are association lists in insertion order, read
  through \<open>map_of\<close>; their keys are distinct.
\<close>

type_synonym rate_table = "(string \<times> real) list"

record cost_result =
  itemized_costs :: "(string \<times> real) list"
  material_costs :: "(string \<times> real) list"
  applied_rates :: rate_table
  total_material_cost :: real
  cost_per_sqft :: "real option"
  total_built_area_sqft :: real

record boq_row =
  item :: string
  quantity :: real
  unit :: string
  rate :: "real option"
  amount :: "real option"

text \<open>
  \<^verbatim>\<open>generate_boq(materials, cost)\<close>: one list literal of thirteen rows. \<^verbatim>\<open>rates.get(k)\<close>
  and \<^verbatim>\<open>itemized.get(k)\<close> give \<^verbatim>\<open>None\<close> for an absent key.
\<close>

definition generate_boq :: "materials \<Rightarrow> cost_result \<Rightarrow> boq_row list" where
  "generate_boq materials cost =
     (let rates = map_of (applied_rates cost);
          itemized = map_of (itemized_costs cost)
      in
      [\<lparr>item = ''PCC (Plain Cement Concrete)'', quantity = getq materials ''concrete'' ''pcc_volume'',
         unit = ''m3'', rate = None, amount = None\<rparr>,
       \<lparr>item = ''RCC Footing Concrete'', quantity = getq materials ''concrete'' ''footing_rcc'',
         unit = ''m3'', rate = None, amount = None\<rparr>,
       \<lparr>item = ''RCC Column Concrete'', quantity = getq materials ''concrete'' ''column_rcc'',
         unit = ''m3'', rate = None, amount = None\<rparr>,
       \<lparr>item = ''RCC Beam Concrete'', quantity = getq materials ''concrete'' ''beam_rcc'',
         unit = ''m3'', rate = None, amount = None\<rparr>,
       \<lparr>item = ''RCC Slab Concrete'', quantity = getq materials ''concrete'' ''slab_rcc'',
         unit = ''m3'', rate = None, amount = None\<rparr>,
       \<lparr>item = ''Cement'', quantity = getq materials ''cement'' ''total_bags'',
         unit = ''bags'', rate = rates ''cement_per_bag'', amount = itemized ''cement''\<rparr>,
       \<lparr>item = ''Sand'',
         quantity = py_round 3 (getq materials ''sand'' ''concrete_sand_m3''
                      + getq materials ''sand'' ''brickwork_sand_m3''
                      + getq materials ''sand'' ''plaster_sand_m3''),
         unit = ''m3'', rate = rates ''sand_per_m3'', amount = itemized ''sand''\<rparr>,
       \<lparr>item = ''Aggregate'', quantity = getq materials ''aggregate'' ''concrete_aggregate_m3'',
         unit = ''m3'', rate = rates ''aggregate_per_m3'', amount = itemized ''aggregate''\<rparr>,
       \<lparr>item = ''Steel Reinforcement'', quantity = getq materials ''steel'' ''total_steel_kg'',
         unit = ''kg'', rate = rates ''steel_per_kg'', amount = itemized ''steel''\<rparr>,
       \<lparr>item = ''Bricks'', quantity = getq materials ''masonry'' ''brick_quantity'',
         unit = ''nos'', rate = rates ''brick_per_100'', amount = itemized ''bricks''\<rparr>,
       \<lparr>item = ''Floor Tiles'', quantity = getq materials ''finishing'' ''flooring_area_m2'',
         unit = ''m2'', rate = rates ''tile_per_sqm'', amount = itemized ''tiles''\<rparr>,
       \<lparr>item = ''Paint'', quantity = getq materials ''finishing'' ''paint_liters'',
         unit = ''liters'', rate = rates ''paint_per_liter'', amount = itemized ''paint''\<rparr>,
       \<lparr>item = ''Plaster'', quantity = getq materials ''finishing'' ''plaster_volume_m3'',
         unit = ''m3'', rate = rates ''plaster_per_m3'', amount = itemized ''plaster''\<rparr>])"

subsection \<open>The input set\<close>

text \<open>
  \<^verbatim>\<open>inputs\<close> is a flat dictionary. \<open>PNum x\<close> is a Python number (an \<^verbatim>\<open>int\<close> or a
  \<^verbatim>\<open>float\<close>) of value \<open>x\<close>; \<open>PStr s\<close> is the text \<open>s\<close>, as the web form passes every
  field. Text is a list of ASCII bytes.
\<close>

datatype pyval = PNum real | PStr string

type_synonym inputs = "string \<rightharpoonup> pyval"

text \<open>\<^verbatim>\<open>s.lower()\<close> on the bytes of an ASCII string.\<close>

definition lower_char :: "char \<Rightarrow> char" where
  "lower_char c =
     (let n = (of_char c :: nat) in if 65 \<le> n \<and> n \<le> 90 then char_of (n + 32) else c)"

subsection \<open>\<^verbatim>\<open>float\<close> and \<^verbatim>\<open>int\<close> of text\<close>

text \<open>
  Both strip the white space around the text (tab, line feed, vertical tab, form feed,
  carriage return, space) and accept one sign. A run of digits is
  \<^verbatim>\<open>digit (["_"] digit)*\<close>: single underscores between digits.
\<close>

definition is_space :: "char \<Rightarrow> bool" where
  "is_space c = (let n = (of_char c :: nat) in (9 \<le> n \<and> n \<le> 13) \<or> n = 32)"

definition is_digit :: "char \<Rightarrow> bool" where
  "is_digit c = (let n = (of_char c :: nat) in 48 \<le> n \<and> n \<le> 57)"

definition digit_val :: "char \<Rightarrow> nat" where
  "digit_val c = (of_char c :: nat) - 48"

definition strip :: "string \<Rightarrow> string" where
  "strip s = rev (dropWhile is_space (rev (dropWhile is_space s)))"

definition take_sign :: "string \<Rightarrow> bool \<times> string" where
  "take_sign s =
     (case s of
        [] \<Rightarrow> (False, [])
      | c # r \<Rightarrow> if c = CHR ''-'' then (True, r)
                 else if c = CHR ''+'' then (False, r) else (False, s))"

text \<open>
  The longest run of digits at the head of a text, as the values of its digits, and the
  rest of the text. An underscore that no digit follows ends the run and stays in the rest.
\<close>

fun digit_run :: "string \<Rightarrow> nat list \<times> string" where
  "digit_run [] = ([], [])"
| "digit_run [c] = (if is_digit c then ([digit_val c], []) else ([], [c]))"
| "digit_run (c # d # cs) =
     (if is_digit c then
        (if is_digit d then
           (case digit_run (d # cs) of (ds, r) \<Rightarrow> (digit_val c # ds, r))
         else if d = CHR ''_'' \<and> cs \<noteq> [] \<and> is_digit (hd cs) then
           (case digit_run cs of (ds, r) \<Rightarrow> (digit_val c # ds, r))
         else ([digit_val c], d # cs))
      else ([], c # d # cs))"

definition digits_value :: "nat list \<Rightarrow> nat" where
  "digits_value ds = foldl (\<lambda>a d. 10 * a + d) 0 ds"

text \<open>
  \<^verbatim>\<open>int(text)\<close>, base ten: a sign and one run of digits, nothing else.
\<close>

definition int_text :: "string \<Rightarrow> py_error + real" where
  "int_text s =
     (case take_sign (strip s) of
        (neg, t) \<Rightarrow>
          (case digit_run t of
             (ds, r) \<Rightarrow>
               if ds = [] \<or> r \<noteq> [] then Inl ValueError
               else Inr (if neg then - real (digits_value ds) else real (digits_value ds))))"

text \<open>
  The exponent part of a float: nothing, or \<^verbatim>\<open>e\<close> or \<^verbatim>\<open>E\<close>, a sign and one run of
  digits. The result is the factor by which the exponent scales.
\<close>

definition exponent_factor :: "string \<Rightarrow> real option" where
  "exponent_factor s =
     (case s of
        [] \<Rightarrow> Some 1
      | c # r \<Rightarrow>
          if c = CHR ''e'' \<or> c = CHR ''E'' then
            (case take_sign r of
               (neg, t) \<Rightarrow>
                 (case digit_run t of
                    (ds, r') \<Rightarrow>
                      if ds = [] \<or> r' \<noteq> [] then None
                      else Some (if neg then 1 / 10 ^ digits_value ds
                                 else 10 ^ digits_value ds)))
          else None)"

text \<open>
  \<^verbatim>\<open>float(text)\<close>: a sign, then digits with an optional point and fraction (at least one
  digit on one side of the point), then an optional exponent. The texts \<^verbatim>\<open>inf\<close>,
  \<^verbatim>\<open>infinity\<close> and \<^verbatim>\<open>nan\<close>, in any case, give a float that is no real number: there the
  run leaves the model, which records it as \<open>NonFinite\<close>.
\<close>

definition float_text :: "string \<Rightarrow> py_error + real" where
  "float_text s =
     (case take_sign (strip s) of
        (neg, t) \<Rightarrow>
          if map lower_char t \<in> set [''inf'', ''infinity'', ''nan''] then Inl NonFinite
          else
            (case digit_run t of
               (ip, r1) \<Rightarrow>
                 (case (if r1 \<noteq> [] \<and> hd r1 = CHR ''.'' then digit_run (tl r1) else ([], r1)) of
                    (fp, r2) \<Rightarrow>
                      if ip = [] \<and> fp = [] then Inl ValueError
                      else
                        (case exponent_factor r2 of
                           None \<Rightarrow> Inl ValueError
                         | Some e \<Rightarrow>
                             (let v = (real (digits_value ip)
                                       + real (digits_value fp) / 10 ^ length fp) * e
                              in Inr (if neg then - v else v))))))"

text \<open>\<^verbatim>\<open>float(v)\<close> and \<^verbatim>\<open>int(v)\<close>; \<^verbatim>\<open>int\<close> of a number truncates.\<close>

definition py_float :: "pyval \<Rightarrow> py_error + real" where
  "py_float v = (case v of PNum x \<Rightarrow> Inr x | PStr s \<Rightarrow> float_text s)"

definition py_int :: "pyval \<Rightarrow> py_error + real" where
  "py_int v = (case v of PNum x \<Rightarrow> Inr (py_trunc x) | PStr s \<Rightarrow> int_text s)"

text \<open>\<^verbatim>\<open>inputs[k]\<close> raises \<^verbatim>\<open>KeyError\<close> on an absent key; \<^verbatim>\<open>inputs.get(k, d)\<close> gives \<^verbatim>\<open>d\<close>.\<close>

definition subscript :: "inputs \<Rightarrow> string \<Rightarrow> py_error + pyval" where
  "subscript inputs k = (case inputs k of None \<Rightarrow> Inl (KeyError k) | Some v \<Rightarrow> Inr v)"

definition get_default :: "('k \<rightharpoonup> 'v) \<Rightarrow> 'k \<Rightarrow> 'v \<Rightarrow> 'v" where
  "get_default d k dflt = (case d k of None \<Rightarrow> dflt | Some v \<Rightarrow> v)"

text \<open>\<^verbatim>\<open>v.lower()\<close>: a number has no such method.\<close>

definition py_lower :: "pyval \<Rightarrow> py_error + string" where
  "py_lower v = (case v of PStr s \<Rightarrow> Inr (map lower_char s) | PNum x \<Rightarrow> Inl AttributeError)"

subsection \<open>Conversion factors and the \<^verbatim>\<open>STANDARDS\<close> table\<close>

definition FT_TO_M :: real where "FT_TO_M = 0.3048"
definition INCH_TO_M :: real where "INCH_TO_M = 0.0254"
definition SQFT_TO_SQM :: real where "SQFT_TO_SQM = 0.092903"

definition cement_bag_kg :: real where "cement_bag_kg = 50"
definition cement_bulk_density_kg_m3 :: real where "cement_bulk_density_kg_m3 = 1440"
definition sand_bulk_density_kg_m3 :: real where "sand_bulk_density_kg_m3 = 1600"
definition aggregate_bulk_density_kg_m3 :: real where "aggregate_bulk_density_kg_m3 = 1500"
definition paint_coverage_m2_per_litre :: real where "paint_coverage_m2_per_litre = 10"

definition cement_content_per_m3 :: "string \<rightharpoonup> real" where
  "cement_content_per_m3 = map_of [(''m20'', 320), (''m25'', 360), (''m30'', 400)]"

definition mix_ratios :: "string \<rightharpoonup> real \<times> real \<times> real" where
  "mix_ratios = map_of [(''m20'', (1.0, 1.5, 3.0)), (''m25'', (1.0, 1.0, 2.0)),
                        (''m30'', (1.0, 0.75, 1.5))]"

definition steel_footing :: real where "steel_footing = 90"
definition steel_column :: real where "steel_column = 130"
definition steel_beam :: real where "steel_beam = 120"
definition steel_slab :: real where "steel_slab = 100"

definition mortar_ratio :: "string \<rightharpoonup> real \<times> real" where
  "mortar_ratio = map_of [(''1:6'', (1.0, 6.0)), (''1:4'', (1.0, 4.0)), (''1:3'', (1.0, 3.0))]"

subsection \<open>\<^verbatim>\<open>calculate_materials\<close>: reading the inputs\<close>

text \<open>
  The function reads and converts its inputs in the order below, interleaved with arithmetic
  whose only divisions by an input-dependent value stand under a guard and are modelled in
  the next subsection. The values read are collected in a record named after the local
  variables of the source, already converted to metric as the source converts them.
\<close>

record params =
  num_floors :: real
  structure_type :: pyval
  num_footings :: real
  footing_length :: real
  footing_width :: real
  footing_depth :: real
  pcc_thickness :: real
  num_columns :: real
  column_length :: real
  column_width :: real
  column_height :: real
  total_beam_length :: real
  beam_width :: real
  beam_depth :: real
  slab_area :: real
  slab_thickness :: real
  concrete_grade :: string
  mortar_mix :: pyval
  external_wall_length :: real
  internal_wall_length :: real
  wall_thickness :: real
  wall_height :: real
  internal_plaster_thickness :: real
  external_plaster_thickness :: real
  brick_size :: real
  flooring_area_sqft :: real
  tile_size_inch :: real
  paint_coats :: real

definition float_of :: "inputs \<Rightarrow> string \<Rightarrow> py_error + real" where
  "float_of inputs k = bind_res (subscript inputs k) py_float"

definition int_of :: "inputs \<Rightarrow> string \<Rightarrow> py_error + real" where
  "int_of inputs k = bind_res (subscript inputs k) py_int"

definition float_get :: "inputs \<Rightarrow> string \<Rightarrow> real \<Rightarrow> py_error + real" where
  "float_get inputs k dflt = py_float (get_default inputs k (PNum dflt))"

definition int_get :: "inputs \<Rightarrow> string \<Rightarrow> real \<Rightarrow> py_error + real" where
  "int_get inputs k dflt = py_int (get_default inputs k (PNum dflt))"

definition read_inputs :: "inputs \<Rightarrow> py_error + params" where
  "read_inputs inputs =
     bind_res (int_of inputs ''num_floors'') (\<lambda>v_num_floors.
     bind_res (subscript inputs ''structure_type'') (\<lambda>v_structure_type.
     bind_res (int_of inputs ''num_footings'') (\<lambda>v_num_footings.
     bind_res (float_of inputs ''footing_length'') (\<lambda>v_footing_length.
     bind_res (float_of inputs ''footing_width'') (\<lambda>v_footing_width.
     bind_res (float_of inputs ''footing_depth'') (\<lambda>v_footing_depth.
     bind_res (float_of inputs ''pcc_thickness'') (\<lambda>v_pcc_thickness.
     bind_res (int_of inputs ''num_columns'') (\<lambda>v_num_columns.
     bind_res (float_of inputs ''column_length'') (\<lambda>v_column_length.
     bind_res (float_of inputs ''column_width'') (\<lambda>v_column_width.
     bind_res (float_of inputs ''column_height'') (\<lambda>v_column_height.
     bind_res (float_of inputs ''total_beam_length'') (\<lambda>v_total_beam_length.
     bind_res (float_of inputs ''beam_width'') (\<lambda>v_beam_width.
     bind_res (float_of inputs ''beam_depth'') (\<lambda>v_beam_depth.
     bind_res (float_of inputs ''slab_area'') (\<lambda>v_slab_area.
     bind_res (float_of inputs ''slab_thickness'') (\<lambda>v_slab_thickness.
     bind_res (py_lower (get_default inputs ''concrete_grade'' (PStr ''m20''))) (\<lambda>v_concrete_grade.
     bind_res (float_of inputs ''external_wall_length'') (\<lambda>v_external_wall_length.
     bind_res (float_of inputs ''internal_wall_length'') (\<lambda>v_internal_wall_length.
     bind_res (float_of inputs ''wall_thickness'') (\<lambda>v_wall_thickness.
     bind_res (float_of inputs ''wall_height'') (\<lambda>v_wall_height.
     bind_res (float_of inputs ''internal_plaster_thickness'') (\<lambda>v_internal_plaster_thickness.
     bind_res (float_of inputs ''external_plaster_thickness'') (\<lambda>v_external_plaster_thickness.
     bind_res (float_get inputs ''brick_length_m'' 0.230) (\<lambda>v_brick_length_m.
     bind_res (float_get inputs ''brick_width_m'' 0.115) (\<lambda>v_brick_width_m.
     bind_res (float_get inputs ''brick_height_m'' 0.075) (\<lambda>v_brick_height_m.
     bind_res (float_get inputs ''flooring_area'' 0.0) (\<lambda>v_flooring_area.
     bind_res (int_get inputs ''tile_size'' 12) (\<lambda>v_tile_size.
     bind_res (int_get inputs ''paint_coats'' 2) (\<lambda>v_paint_coats.
     Inr \<lparr>num_floors = v_num_floors,
          structure_type = v_structure_type,
          num_footings = v_num_footings,
          footing_length = v_footing_length * FT_TO_M,
          footing_width = v_footing_width * FT_TO_M,
          footing_depth = v_footing_depth * FT_TO_M,
          pcc_thickness = v_pcc_thickness * INCH_TO_M,
          num_columns = v_num_columns,
          column_length = v_column_length * INCH_TO_M,
          column_width = v_column_width * INCH_TO_M,
          column_height = v_column_height * FT_TO_M,
          total_beam_length = v_total_beam_length * FT_TO_M,
          beam_width = v_beam_width * INCH_TO_M,
          beam_depth = v_beam_depth * INCH_TO_M,
          slab_area = v_slab_area * SQFT_TO_SQM,
          slab_thickness = v_slab_thickness * INCH_TO_M,
          concrete_grade = v_concrete_grade,
          mortar_mix = get_default inputs ''mortar_mix'' (PStr ''1:6''),
          external_wall_length = v_external_wall_length * FT_TO_M,
          internal_wall_length = v_internal_wall_length * FT_TO_M,
          wall_thickness = v_wall_thickness * INCH_TO_M,
          wall_height = v_wall_height * FT_TO_M,
          internal_plaster_thickness = v_internal_plaster_thickness * INCH_TO_M,
          external_plaster_thickness = v_external_plaster_thickness * INCH_TO_M,
          brick_size = v_brick_length_m * v_brick_width_m * v_brick_height_m,
          flooring_area_sqft = v_flooring_area,
          tile_size_inch = v_tile_size,
          paint_coats = v_paint_coats\<rparr>
     )))))))))))))))))))))))))))))"

subsection \<open>\<^verbatim>\<open>calculate_materials\<close>: the quantities\<close>

text \<open>Each local variable of the source is a function of the values read.\<close>

definition footing_vol :: "params \<Rightarrow> real" where
  "footing_vol p = num_footings p * footing_length p * footing_width p * footing_depth p"

definition pcc_vol :: "params \<Rightarrow> real" where
  "pcc_vol p = num_footings p * footing_length p * footing_width p * pcc_thickness p"

definition column_vol :: "params \<Rightarrow> real" where
  "column_vol p = num_columns p * num_floors p * column_length p * column_width p * column_height p"

definition beam_vol :: "params \<Rightarrow> real" where
  "beam_vol p = total_beam_length p * beam_width p * beam_depth p * num_floors p"

definition slab_vol :: "params \<Rightarrow> real" where
  "slab_vol p = slab_area p * slab_thickness p * num_floors p"

text \<open>
  \<^verbatim>\<open>total_concrete\<close> adds two entries already written to the dictionary, that is, two
  rounded values.
\<close>

definition total_concrete :: "params \<Rightarrow> real" where
  "total_concrete p =
     py_round 2 (pcc_vol p)
     + py_round 2 (footing_vol p + column_vol p + beam_vol p + slab_vol p)"

definition cement_kg_per_m3 :: "params \<Rightarrow> real" where
  "cement_kg_per_m3 p = get_default cement_content_per_m3 (concrete_grade p) 320"

definition cement_for_concrete_kg :: "params \<Rightarrow> real" where
  "cement_for_concrete_kg p = total_concrete p * cement_kg_per_m3 p"

definition cement_bags_concrete :: "params \<Rightarrow> real" where
  "cement_bags_concrete p = ceil (cement_for_concrete_kg p / cement_bag_kg)"

definition sand_vol :: "params \<Rightarrow> real" where
  "sand_vol p =
     (case get_default mix_ratios (concrete_grade p) (1.0, 1.5, 3.0) of
        (cement_part, sand_part, agg_part) \<Rightarrow>
          (sand_part / (cement_part + sand_part + agg_part)) * total_concrete p)"

definition agg_vol :: "params \<Rightarrow> real" where
  "agg_vol p =
     (case get_default mix_ratios (concrete_grade p) (1.0, 1.5, 3.0) of
        (cement_part, sand_part, agg_part) \<Rightarrow>
          (agg_part / (cement_part + sand_part + agg_part)) * total_concrete p)"

definition sand_mass_kg :: "params \<Rightarrow> real" where
  "sand_mass_kg p = sand_vol p * sand_bulk_density_kg_m3"

definition agg_mass_kg :: "params \<Rightarrow> real" where
  "agg_mass_kg p = agg_vol p * aggregate_bulk_density_kg_m3"

definition total_wall_length :: "params \<Rightarrow> real" where
  "total_wall_length p = (external_wall_length p + internal_wall_length p) * num_floors p"

definition wall_volume :: "params \<Rightarrow> real" where
  "wall_volume p = total_wall_length p * wall_thickness p * wall_height p"

definition mortar_volume :: "params \<Rightarrow> real" where
  "mortar_volume p = wall_volume p * 0.10"

text \<open>A key that is not one of the three texts of \<open>mortar_ratio\<close> selects the 1:6 entry.\<close>

definition mortar_parts :: "params \<Rightarrow> real \<times> real" where
  "mortar_parts p =
     (case mortar_mix p of
        PStr s \<Rightarrow> get_default mortar_ratio s (1.0, 6.0)
      | PNum x \<Rightarrow> (1.0, 6.0))"

definition mortar_total_parts :: "params \<Rightarrow> real" where
  "mortar_total_parts p = fst (mortar_parts p) + snd (mortar_parts p)"

definition cement_for_mortar_kg :: "params \<Rightarrow> real" where
  "cement_for_mortar_kg p =
     mortar_volume p * (fst (mortar_parts p) / mortar_total_parts p) * cement_bulk_density_kg_m3"

definition plaster_area_internal :: "params \<Rightarrow> real" where
  "plaster_area_internal p = total_wall_length p * wall_height p * 0.8"

definition plaster_area_external :: "params \<Rightarrow> real" where
  "plaster_area_external p = external_wall_length p * num_floors p * wall_height p"

definition total_plaster_vol :: "params \<Rightarrow> real" where
  "total_plaster_vol p =
     plaster_area_internal p * internal_plaster_thickness p
     + plaster_area_external p * external_plaster_thickness p"

definition plaster_cement_part :: real where "plaster_cement_part = 1.0"
definition plaster_sand_part :: real where "plaster_sand_part = 3.0"
definition plaster_total_parts :: real where
  "plaster_total_parts = plaster_cement_part + plaster_sand_part"

definition cement_for_plaster_kg :: "params \<Rightarrow> real" where
  "cement_for_plaster_kg p =
     total_plaster_vol p * (plaster_cement_part / plaster_total_parts) * cement_bulk_density_kg_m3"

definition cement_for_mortar_bags :: "params \<Rightarrow> real" where
  "cement_for_mortar_bags p = ceil (cement_for_mortar_kg p / cement_bag_kg)"

definition cement_for_plaster_bags :: "params \<Rightarrow> real" where
  "cement_for_plaster_bags p = ceil (cement_for_plaster_kg p / cement_bag_kg)"

definition mortar_sand_vol :: "params \<Rightarrow> real" where
  "mortar_sand_vol p = mortar_volume p * (snd (mortar_parts p) / mortar_total_parts p)"

definition mortar_sand_kg :: "params \<Rightarrow> real" where
  "mortar_sand_kg p = mortar_sand_vol p * sand_bulk_density_kg_m3"

definition plaster_sand_vol :: "params \<Rightarrow> real" where
  "plaster_sand_vol p = total_plaster_vol p * (plaster_sand_part / plaster_total_parts)"

definition plaster_sand_kg :: "params \<Rightarrow> real" where
  "plaster_sand_kg p = plaster_sand_vol p * sand_bulk_density_kg_m3"

definition steel_for_footing :: "params \<Rightarrow> real" where
  "steel_for_footing p = footing_vol p * steel_footing"

definition steel_for_column :: "params \<Rightarrow> real" where
  "steel_for_column p = column_vol p * steel_column"

definition steel_for_beam :: "params \<Rightarrow> real" where
  "steel_for_beam p = beam_vol p * steel_beam"

definition steel_for_slab :: "params \<Rightarrow> real" where
  "steel_for_slab p = slab_vol p * steel_slab"

text \<open>
  The two divisions by a value that depends on the inputs, each under its guard:
  \<^verbatim>\<open>1.0 / brick_size if brick_size > 0 else 0\<close> and
  \<^verbatim>\<open>(flooring_area_sqft / tile_area_sqft) if tile_area_sqft > 0 else 0\<close>.
\<close>

definition bricks_per_m3 :: "params \<Rightarrow> py_error + real" where
  "bricks_per_m3 p = (if brick_size p > 0 then py_div 1.0 (brick_size p) else Inr 0)"

definition tile_area_sqft :: "params \<Rightarrow> real" where
  "tile_area_sqft p = (tile_size_inch p / 12.0) ^ 2"

definition tiles_required :: "params \<Rightarrow> py_error + real" where
  "tiles_required p =
     (if tile_area_sqft p > 0 then py_div (flooring_area_sqft p) (tile_area_sqft p) else Inr 0)"

definition paint_area_m2 :: "params \<Rightarrow> real" where
  "paint_area_m2 p = plaster_area_internal p + plaster_area_external p"

definition paint_required_l :: "params \<Rightarrow> real" where
  "paint_required_l p = (paint_area_m2 p * paint_coats p) / paint_coverage_m2_per_litre"

text \<open>
  The dictionary returned. \<^verbatim>\<open>round(n, 0)\<close> of the integers that \<^verbatim>\<open>ceil\<close> returns is
  written as the same rounding of their values.
\<close>

definition build_materials :: "params \<Rightarrow> real \<Rightarrow> real \<Rightarrow> materials" where
  "build_materials p v_bricks_per_m3 v_tiles_required =
     map_of
      [(''concrete'', map_of
         [(''pcc_volume'', py_round 2 (pcc_vol p)),
          (''footing_rcc'', py_round 2 (footing_vol p)),
          (''column_rcc'', py_round 2 (column_vol p)),
          (''beam_rcc'', py_round 2 (beam_vol p)),
          (''slab_rcc'', py_round 2 (slab_vol p)),
          (''total_rcc'',
             py_round 2 (footing_vol p + column_vol p + beam_vol p + slab_vol p))]),
       (''cement'', map_of
         [(''for_concrete'', py_round 0 (cement_bags_concrete p)),
          (''for_mortarbrickwork'', py_round 0 (cement_for_mortar_bags p)),
          (''for_plaster'', py_round 0 (cement_for_plaster_bags p)),
          (''total_bags'',
             py_round 0 (py_round 0 (cement_bags_concrete p)
                         + py_round 0 (cement_for_mortar_bags p)
                         + py_round 0 (cement_for_plaster_bags p)))]),
       (''sand'', map_of
         [(''concrete_sand_m3'', py_round 3 (sand_vol p)),
          (''concrete_sand_kg'', py_round 1 (sand_mass_kg p)),
          (''brickwork_sand_m3'', py_round 3 (mortar_sand_vol p)),
          (''brickwork_sand_kg'', py_round 1 (mortar_sand_kg p)),
          (''plaster_sand_m3'', py_round 3 (plaster_sand_vol p)),
          (''plaster_sand_kg'', py_round 1 (plaster_sand_kg p)),
          (''total_sand_kg'',
             py_round 1 (sand_mass_kg p + mortar_sand_kg p + plaster_sand_kg p))]),
       (''aggregate'', map_of
         [(''concrete_aggregate_m3'', py_round 3 (agg_vol p)),
          (''concrete_aggregate_kg'', py_round 1 (agg_mass_kg p)),
          (''total_aggregate_kg'', py_round 1 (agg_mass_kg p))]),
       (''steel'', map_of
         [(''footing_steel_kg'', py_round 1 (steel_for_footing p)),
          (''column_steel_kg'', py_round 1 (steel_for_column p)),
          (''beam_steel_kg'', py_round 1 (steel_for_beam p)),
          (''slab_steel_kg'', py_round 1 (steel_for_slab p)),
          (''total_steel_kg'',
             py_round 1 (steel_for_footing p + steel_for_column p
                         + steel_for_beam p + steel_for_slab p))]),
       (''masonry'', map_of
         [(''brick_quantity'', py_round 0 (wall_volume p * v_bricks_per_m3)),
          (''mortar_volume_m3'', py_round 3 (mortar_volume p))]),
       (''finishing'', map_of
         [(''floor_tiles_qty'', py_round 0 (v_tiles_required * 1.05)),
          (''paint_liters'', py_round 2 (paint_required_l p)),
          (''plaster_volume_m3'', py_round 3 (total_plaster_vol p)),
          (''flooring_area_sqft'', py_round 2 (flooring_area_sqft p)),
          (''flooring_area_m2'', py_round 3 (flooring_area_sqft p * SQFT_TO_SQM)),
          (''tile_area_m2'', py_round 4 (tile_area_sqft p * SQFT_TO_SQM))])]"

definition compute_materials :: "params \<Rightarrow> py_error + materials" where
  "compute_materials p =
     bind_res (bricks_per_m3 p) (\<lambda>v_bricks_per_m3.
     bind_res (tiles_required p) (\<lambda>v_tiles_required.
     Inr (build_materials p v_bricks_per_m3 v_tiles_required)))"

definition calculate_materials :: "inputs \<Rightarrow> py_error + materials" where
  "calculate_materials inputs = bind_res (read_inputs inputs) compute_materials"

subsection \<open>\<^verbatim>\<open>generate_plan_variants\<close>\<close>

text \<open>
  The loop \<^verbatim>\<open>for key in d[section]: d[section][key] = round(d[section][key] * factor, n)\<close>
  over one section. Every value of a snapshot is a number, so the \<^verbatim>\<open>isinstance\<close> test of
  the loop holds for each key.
\<close>

definition scale_section :: "real \<Rightarrow> nat \<Rightarrow> quantities \<Rightarrow> quantities" where
  "scale_section factor n sec = (\<lambda>key. map_option (\<lambda>v. py_round n (v * factor)) (sec key))"

definition adjust_section :: "real \<Rightarrow> nat \<Rightarrow> string \<Rightarrow> materials \<Rightarrow> materials" where
  "adjust_section factor n name m =
     (case m name of None \<Rightarrow> m | Some sec \<Rightarrow> m(name \<mapsto> scale_section factor n sec))"

definition adjust_key :: "real \<Rightarrow> string \<Rightarrow> string \<Rightarrow> materials \<Rightarrow> materials" where
  "adjust_key factor name key m =
     (case m name of None \<Rightarrow> m
      | Some sec \<Rightarrow>
          (case sec key of None \<Rightarrow> m
           | Some v \<Rightarrow> m(name \<mapsto> sec(key \<mapsto> py_round 0 (v * factor)))))"

definition adjustment_factor :: "string \<Rightarrow> real" where
  "adjustment_factor plan_type =
     (if plan_type = ''economy'' then 1.08
      else if plan_type = ''premium'' then 0.95
      else 1.0)"

text \<open>
  The copy is adjusted section by section, in the order of the source. The result is a new
  value; the argument is not changed.
\<close>

definition generate_plan_variants :: "materials \<Rightarrow> string \<Rightarrow> materials" where
  "generate_plan_variants materials plan_type =
     (let factor = adjustment_factor plan_type in
      if factor \<noteq> 1.0 then
        adjust_key factor ''finishing'' ''floor_tiles_qty''
         (adjust_key factor ''masonry'' ''brick_quantity''
           (adjust_section factor 1 ''steel''
             (adjust_section factor 1 ''aggregate''
               (adjust_section factor 1 ''sand''
                 (adjust_section factor 0 ''cement''
                   (adjust_section factor 2 ''concrete'' materials))))))
      else materials)"

subsection \<open>\<^verbatim>\<open>calculate_cost\<close>\<close>

definition default_rates :: rate_table where
  "default_rates =
     [(''cement_per_bag'', 420.0), (''sand_per_m3'', 1200.0), (''aggregate_per_m3'', 900.0),
      (''steel_per_kg'', 65.0), (''brick_per_100'', 350.0), (''tile_per_sqm'', 300.0),
      (''paint_per_liter'', 500.0), (''plaster_per_m3'', 2000.0)]"

text \<open>
  \<^verbatim>\<open>custom_rates if custom_rates else default_rates\<close>: \<^verbatim>\<open>None\<close> and the empty dictionary
  are both false.
\<close>

definition base_rates :: "rate_table option \<Rightarrow> rate_table" where
  "base_rates custom_rates =
     (case custom_rates of
        None \<Rightarrow> default_rates
      | Some cr \<Rightarrow> if cr = [] then default_rates else cr)"

text \<open>\<^verbatim>\<open>{k: v * factor for k, v in base_rates.items()}\<close>\<close>

definition scale_rates :: "real \<Rightarrow> rate_table \<Rightarrow> rate_table" where
  "scale_rates factor rates = map (\<lambda>(k, v). (k, v * factor)) rates"

definition plan_rates :: "string \<Rightarrow> rate_table \<Rightarrow> rate_table" where
  "plan_rates plan_type rates =
     (if plan_type = ''economy'' then scale_rates 0.90 rates
      else if plan_type = ''premium'' then scale_rates 1.15 rates
      else rates)"

text \<open>\<^verbatim>\<open>rates[k]\<close> raises \<^verbatim>\<open>KeyError\<close> on an absent key.\<close>

definition rate_of :: "rate_table \<Rightarrow> string \<Rightarrow> py_error + real" where
  "rate_of rates k = (case map_of rates k of None \<Rightarrow> Inl (KeyError k) | Some v \<Rightarrow> Inr v)"

text \<open>
  The sand and aggregate volumes, with their fallback to a mass. \<^verbatim>\<open>d.get(k)\<close> is false
  when the key is absent and when its value is zero.
\<close>

definition sand_m3 :: "materials \<Rightarrow> real" where
  "sand_m3 materials =
     (let s = getq materials ''sand'' ''concrete_sand_m3''
              + getq materials ''sand'' ''brickwork_sand_m3''
              + getq materials ''sand'' ''plaster_sand_m3''
      in if s = 0 \<and> getq materials ''sand'' ''total_sand_kg'' \<noteq> 0
         then getq materials ''sand'' ''total_sand_kg'' / 1600.0 else s)"

definition agg_m3 :: "materials \<Rightarrow> real" where
  "agg_m3 materials =
     (let a = getq materials ''aggregate'' ''concrete_aggregate_m3''
      in if a = 0 \<and> getq materials ''aggregate'' ''concrete_aggregate_kg'' \<noteq> 0
         then getq materials ''aggregate'' ''concrete_aggregate_kg'' / 1500.0 else a)"

text \<open>
  The dictionary \<^verbatim>\<open>itemized\<close> (and \<^verbatim>\<open>material_costs\<close>, which receives the same entries),
  before rounding, in insertion order. Each rate is looked up when its category is priced.
\<close>

definition itemize :: "materials \<Rightarrow> rate_table \<Rightarrow> py_error + (string \<times> real) list" where
  "itemize materials rates =
     bind_res (rate_of rates ''cement_per_bag'') (\<lambda>r_cement.
     bind_res (rate_of rates ''sand_per_m3'') (\<lambda>r_sand.
     bind_res (rate_of rates ''aggregate_per_m3'') (\<lambda>r_aggregate.
     bind_res (rate_of rates ''steel_per_kg'') (\<lambda>r_steel.
     bind_res (rate_of rates ''brick_per_100'') (\<lambda>r_brick.
     bind_res (rate_of rates ''tile_per_sqm'') (\<lambda>r_tile.
     bind_res (rate_of rates ''paint_per_liter'') (\<lambda>r_paint.
     bind_res (rate_of rates ''plaster_per_m3'') (\<lambda>r_plaster.
     Inr [(''cement'', getq materials ''cement'' ''total_bags'' * r_cement),
          (''sand'', sand_m3 materials * r_sand),
          (''aggregate'', agg_m3 materials * r_aggregate),
          (''steel'', getq materials ''steel'' ''total_steel_kg'' * r_steel),
          (''bricks'', (getq materials ''masonry'' ''brick_quantity'' / 100.0) * r_brick),
          (''tiles'', getq materials ''finishing'' ''flooring_area_m2'' * r_tile),
          (''paint'', getq materials ''finishing'' ''paint_liters'' * r_paint),
          (''plaster'', getq materials ''finishing'' ''plaster_volume_m3'' * r_plaster)]
     ))))))))"

definition round_items :: "(string \<times> real) list \<Rightarrow> (string \<times> real) list" where
  "round_items its = map (\<lambda>(k, v). (k, py_round 2 v)) its"

text \<open>
  \<^verbatim>\<open>(total_material_cost / total_built_area_sqft) if total_built_area_sqft else None\<close>.
\<close>

definition per_sqft :: "real \<Rightarrow> real \<Rightarrow> py_error + real option" where
  "per_sqft v_total area =
     (if area \<noteq> 0 then bind_res (py_div v_total area) (\<lambda>q. Inr (Some q)) else Inr None)"

definition calculate_cost ::
  "materials \<Rightarrow> string \<Rightarrow> rate_table option \<Rightarrow> py_error + cost_result" where
  "calculate_cost materials plan_type custom_rates =
     (let rates = plan_rates plan_type (base_rates custom_rates) in
      bind_res (itemize materials rates) (\<lambda>itemized.
      let v_total = sum_list (map snd itemized);
          area = getq materials ''finishing'' ''flooring_area_sqft''
      in bind_res (per_sqft v_total area) (\<lambda>v_cost_per_sqft.
         Inr \<lparr>itemized_costs = round_items itemized,
              material_costs = round_items itemized,
              applied_rates = rates,
              total_material_cost = py_round 2 v_total,
              cost_per_sqft = map_option (py_round 2) v_cost_per_sqft,
              total_built_area_sqft = py_round 2 area\<rparr>)))"

subsection \<open>The scenario of the specification\<close>

definition scenario :: inputs where
  "scenario = map_of
     [(''plot_length'', PNum 30), (''plot_width'', PNum 40), (''num_floors'', PNum 2),
      (''structure_type'', PStr ''rcc_framed''), (''footing_type'', PStr ''isolated''),
      (''num_footings'', PNum 8), (''footing_length'', PNum 4), (''footing_width'', PNum 4),
      (''footing_depth'', PNum 1), (''pcc_thickness'', PNum 3),
      (''num_columns'', PNum 8), (''column_length'', PNum 12), (''column_width'', PNum 12),
      (''column_height'', PNum 10),
      (''total_beam_length'', PNum 200), (''beam_width'', PNum 9), (''beam_depth'', PNum 12),
      (''slab_area'', PNum 1200), (''slab_thickness'', PNum 5),
      (''external_wall_length'', PNum 140), (''internal_wall_length'', PNum 80),
      (''wall_thickness'', PNum 9), (''wall_height'', PNum 10),
      (''internal_plaster_thickness'', PNum 0.5), (''external_plaster_thickness'', PNum 0.75),
      (''flooring_area'', PNum 1200), (''tile_size'', PNum 12), (''paint_coats'', PNum 2),
      (''concrete_grade'', PStr ''m20''), (''mortar_mix'', PStr ''1:6'')]"

text \<open>
  The fields that \<^verbatim>\<open>generate_plan_variants\<close> scales, each with the number of decimals of
  the \<^verbatim>\<open>round\<close> call that scales it: every key of \<^verbatim>\<open>'concrete'\<close> (2), of \<^verbatim>\<open>'cement'\<close> (0)
  and of \<^verbatim>\<open>'sand'\<close>, \<^verbatim>\<open>'aggregate'\<close>, \<^verbatim>\<open>'steel'\<close> (1), and the two counts
  \<^verbatim>\<open>masonry.brick_quantity\<close> and \<^verbatim>\<open>finishing.floor_tiles_qty\<close> (0).
\<close>

definition adjusted_digits :: "string \<Rightarrow> string \<Rightarrow> nat option" where
  "adjusted_digits sec key =
     (if sec = ''concrete'' then Some 2
      else if sec = ''cement'' then Some 0
      else if sec = ''sand'' \<or> sec = ''aggregate'' \<or> sec = ''steel'' then Some 1
      else if sec = ''masonry'' \<and> key = ''brick_quantity'' then Some 0
      else if sec = ''finishing'' \<and> key = ''floor_tiles_qty'' then Some 0
      else None)"

subsection \<open>Fixtures\<close>

text \<open>The eight rate keys that \<^verbatim>\<open>calculate_cost\<close> subscripts, in the order of their use.\<close>

definition required_rate_keys :: "string list" where
  "required_rate_keys =
     [''cement_per_bag'', ''sand_per_m3'', ''aggregate_per_m3'', ''steel_per_kg'',
      ''brick_per_100'', ''tile_per_sqm'', ''paint_per_liter'', ''plaster_per_m3'']"

text \<open>A small snapshot: a thousandth of a cubic metre of sand and of aggregate, ten bags.\<close>

definition small_snapshot :: materials where
  "small_snapshot = map_of
     [(''cement'', map_of [(''total_bags'', 10)]),
      (''sand'', map_of [(''concrete_sand_m3'', 0.001)]),
      (''aggregate'', map_of [(''concrete_aggregate_m3'', 0.001)]),
      (''finishing'', map_of [(''flooring_area_sqft'', 100)])]"

text \<open>A complete custom rate table, and one that lacks all keys but the first.\<close>

definition custom_table :: rate_table where
  "custom_table =
     [(''cement_per_bag'', 420.0), (''sand_per_m3'', 1203.0), (''aggregate_per_m3'', 903.0),
      (''steel_per_kg'', 65.0), (''brick_per_100'', 350.0), (''tile_per_sqm'', 300.0),
      (''paint_per_liter'', 500.0), (''plaster_per_m3'', 2000.0)]"

definition partial_table :: rate_table where
  "partial_table = [(''cement_per_bag'', 420.0)]"

text \<open>The values that \<^verbatim>\<open>calculate_materials\<close> reads from the scenario, and its result.\<close>

definition scenario_params :: params where
  "scenario_params =
     \<lparr>num_floors = 2, structure_type = PStr ''rcc_framed'', num_footings = 8,
      footing_length = 4 * FT_TO_M, footing_width = 4 * FT_TO_M, footing_depth = 1 * FT_TO_M,
      pcc_thickness = 3 * INCH_TO_M, num_columns = 8,
      column_length = 12 * INCH_TO_M, column_width = 12 * INCH_TO_M,
      column_height = 10 * FT_TO_M, total_beam_length = 200 * FT_TO_M,
      beam_width = 9 * INCH_TO_M, beam_depth = 12 * INCH_TO_M,
      slab_area = 1200 * SQFT_TO_SQM, slab_thickness = 5 * INCH_TO_M,
      concrete_grade = ''m20'', mortar_mix = PStr ''1:6'',
      external_wall_length = 140 * FT_TO_M, internal_wall_length = 80 * FT_TO_M,
      wall_thickness = 9 * INCH_TO_M, wall_height = 10 * FT_TO_M,
      internal_plaster_thickness = 0.5 * INCH_TO_M,
      external_plaster_thickness = 0.75 * INCH_TO_M,
      brick_size = 0.230 * 0.115 * 0.075, flooring_area_sqft = 1200,
      tile_size_inch = 12, paint_coats = 2\<rparr>"

definition scenario_materials :: materials where
  "scenario_materials = build_materials scenario_params (1 / (0.230 * 0.115 * 0.075)) 1200"

text \<open>The scenario with a brick of length zero.\<close>

definition flat_brick_scenario :: inputs where
  "flat_brick_scenario = scenario(''brick_length_m'' \<mapsto> PNum 0)"

text \<open>The scenario as the web form passes it: every field is text.\<close>

definition scenario_form :: inputs where
  "scenario_form = map_of
     [(''plot_length'', PStr ''30''), (''plot_width'', PStr ''40''), (''num_floors'', PStr ''2''),
      (''structure_type'', PStr ''rcc_framed''), (''footing_type'', PStr ''isolated''),
      (''num_footings'', PStr ''8''), (''footing_length'', PStr ''4''),
      (''footing_width'', PStr ''4''), (''footing_depth'', PStr ''1''),
      (''pcc_thickness'', PStr ''3''),
      (''num_columns'', PStr ''8''), (''column_length'', PStr ''12''),
      (''column_width'', PStr ''12''), (''column_height'', PStr ''10''),
      (''total_beam_length'', PStr ''200''), (''beam_width'', PStr ''9''),
      (''beam_depth'', PStr ''12''),
      (''slab_area'', PStr ''1200''), (''slab_thickness'', PStr ''5''),
      (''external_wall_length'', PStr ''140''), (''internal_wall_length'', PStr ''80''),
      (''wall_thickness'', PStr ''9''), (''wall_height'', PStr ''10''),
      (''internal_plaster_thickness'', PStr ''0.5''),
      (''external_plaster_thickness'', PStr ''0.75''),
      (''flooring_area'', PStr ''1200''), (''tile_size'', PStr ''12''),
      (''paint_coats'', PStr ''2''),
      (''concrete_grade'', PStr ''m20''), (''mortar_mix'', PStr ''1:6'')]"

text \<open>
  A small building: a shed of 6 by 6 feet, one floor, four footings and four posts, with
  every numeric field positive. Then the values read from it and the result.
\<close>

definition shed :: inputs where
  "shed = map_of
     [(''plot_length'', PNum 6), (''plot_width'', PNum 6), (''num_floors'', PNum 1),
      (''floor_height'', PNum 7),
      (''structure_type'', PStr ''load_bearing''), (''footing_type'', PStr ''isolated''),
      (''num_footings'', PNum 4), (''footing_length'', PNum 1), (''footing_width'', PNum 1),
      (''footing_depth'', PNum 0.5), (''pcc_thickness'', PNum 2),
      (''num_columns'', PNum 4), (''column_length'', PNum 4), (''column_width'', PNum 4),
      (''column_height'', PNum 7),
      (''total_beam_length'', PNum 24), (''beam_width'', PNum 4), (''beam_depth'', PNum 4),
      (''slab_area'', PNum 36), (''slab_thickness'', PNum 4),
      (''external_wall_length'', PNum 24), (''internal_wall_length'', PNum 1),
      (''wall_thickness'', PNum 4), (''wall_height'', PNum 7),
      (''internal_plaster_thickness'', PNum 0.5), (''external_plaster_thickness'', PNum 0.5),
      (''flooring_area'', PNum 36), (''tile_size'', PNum 12), (''paint_type'', PStr ''emulsion''),
      (''paint_coats'', PNum 2),
      (''concrete_grade'', PStr ''m20''), (''cement_type'', PStr ''opc''),
      (''mortar_mix'', PStr ''1:6'')]"

definition shed_params :: params where
  "shed_params =
     \<lparr>num_floors = 1, structure_type = PStr ''load_bearing'', num_footings = 4,
      footing_length = 1 * FT_TO_M, footing_width = 1 * FT_TO_M, footing_depth = 0.5 * FT_TO_M,
      pcc_thickness = 2 * INCH_TO_M, num_columns = 4,
      column_length = 4 * INCH_TO_M, column_width = 4 * INCH_TO_M,
      column_height = 7 * FT_TO_M, total_beam_length = 24 * FT_TO_M,
      beam_width = 4 * INCH_TO_M, beam_depth = 4 * INCH_TO_M,
      slab_area = 36 * SQFT_TO_SQM, slab_thickness = 4 * INCH_TO_M,
      concrete_grade = ''m20'', mortar_mix = PStr ''1:6'',
      external_wall_length = 24 * FT_TO_M, internal_wall_length = 1 * FT_TO_M,
      wall_thickness = 4 * INCH_TO_M, wall_height = 7 * FT_TO_M,
      internal_plaster_thickness = 0.5 * INCH_TO_M,
      external_plaster_thickness = 0.5 * INCH_TO_M,
      brick_size = 0.230 * 0.115 * 0.075, flooring_area_sqft = 36,
      tile_size_inch = 12, paint_coats = 2\<rparr>"

definition shed_materials :: materials where
  "shed_materials = build_materials shed_params (1 / (0.230 * 0.115 * 0.075)) 36"

subsection \<open>Totals against their components\<close>

text \<open>
  The distance between a declared total of a snapshot and the sum of its declared
  components, for the four totals of the specification.
\<close>

definition rcc_gap :: "materials \<Rightarrow> real" where
  "rcc_gap s =
     \<bar>getq s ''concrete'' ''total_rcc''
      - (getq s ''concrete'' ''footing_rcc'' + getq s ''concrete'' ''column_rcc''
         + getq s ''concrete'' ''beam_rcc'' + getq s ''concrete'' ''slab_rcc'')\<bar>"

definition cement_gap :: "materials \<Rightarrow> real" where
  "cement_gap s =
     \<bar>getq s ''cement'' ''total_bags''
      - (getq s ''cement'' ''for_concrete'' + getq s ''cement'' ''for_mortarbrickwork''
         + getq s ''cement'' ''for_plaster'')\<bar>"

definition steel_gap :: "materials \<Rightarrow> real" where
  "steel_gap s =
     \<bar>getq s ''steel'' ''total_steel_kg''
      - (getq s ''steel'' ''footing_steel_kg'' + getq s ''steel'' ''column_steel_kg''
         + getq s ''steel'' ''beam_steel_kg'' + getq s ''steel'' ''slab_steel_kg'')\<bar>"

definition sand_gap :: "materials \<Rightarrow> real" where
  "sand_gap s =
     \<bar>getq s ''sand'' ''total_sand_kg''
      - (getq s ''sand'' ''concrete_sand_kg'' + getq s ''sand'' ''brickwork_sand_kg''
         + getq s ''sand'' ''plaster_sand_kg'')\<bar>"

section \<open>Properties\<close>

subsection \<open>Rounding\<close>

lemma round_half_even_err: "\<bar>of_int (round_half_even y) - y\<bar> \<le> 1 / 2"
proof -
  have "of_int \<lfloor>y\<rfloor> \<le> y" "y < of_int \<lfloor>y\<rfloor> + 1" by linarith+
  then show ?thesis
    by (auto simp: round_half_even_def Let_def abs_le_iff)
qed

lemma round_half_even_of_int: "round_half_even (of_int k) = k"
  by (simp add: round_half_even_def)

lemma round_half_even_mono:
  assumes "x \<le> y" shows "round_half_even x \<le> round_half_even y"
proof (rule ccontr)
  assume "\<not> ?thesis"
  then have lt: "round_half_even y + 1 \<le> round_half_even x" by simp
  have ex: "of_int (round_half_even x) - x \<le> 1 / 2"
    using round_half_even_err [of x] by linarith
  have ey: "y - of_int (round_half_even y) \<le> 1 / 2"
    using round_half_even_err [of y] by linarith
  have "(of_int (round_half_even y) :: real) + 1 \<le> of_int (round_half_even x)"
    using lt by (metis of_int_1 of_int_add of_int_le_iff)
  with ex ey assms have xy: "x = y" and dy: "y = of_int (round_half_even y) + 1 / 2"
    and dx: "of_int (round_half_even x) = x + 1 / 2" by linarith+
  from dx dy xy have "(of_int (round_half_even x) :: real) = of_int (round_half_even y) + 1"
    by linarith
  with xy show False by simp
qed

lemma py_round_err: "\<bar>py_round n x - x\<bar> \<le> 1 / (2 * 10 ^ n)"
proof -
  define s :: real where "s = 10 ^ n"
  have s: "0 < s" by (simp add: s_def)
  define r :: real where "r = of_int (round_half_even (x * s))"
  have "\<bar>r - x * s\<bar> \<le> 1 / 2"
    unfolding r_def by (rule round_half_even_err)
  with s have "\<bar>r - x * s\<bar> / s \<le> (1 / 2) / s"
    by (intro divide_right_mono) simp_all
  moreover have "r / s - x = (r - x * s) / s"
    using s by (simp add: field_simps)
  then have "\<bar>r - x * s\<bar> / s = \<bar>r / s - x\<bar>"
    using s by simp
  ultimately have "\<bar>r / s - x\<bar> \<le> 1 / (2 * s)" by simp
  then show ?thesis by (simp add: py_round_def r_def s_def)
qed

lemma py_round_mono: "x \<le> y \<Longrightarrow> py_round n x \<le> py_round n y"
  unfolding py_round_def
  by (intro divide_right_mono) (simp_all add: round_half_even_mono)

lemma py_round_grid: "py_round n (of_int k / 10 ^ n) = of_int k / 10 ^ n"
  by (simp add: py_round_def round_half_even_of_int)

lemma py_round_0: "py_round n 0 = 0"
  by (simp add: py_round_def round_half_even_def)

lemmas py_round_eval = py_round_def round_half_even_def Let_def

subsection \<open>Exceptions\<close>

lemma bind_res_Inr_iff: "bind_res x f = Inr y \<longleftrightarrow> (\<exists>v. x = Inr v \<and> f v = Inr y)"
  by (cases x) (simp_all add: bind_res_def)

lemma bind_res_Inl_iff:
  "bind_res x f = Inl e \<longleftrightarrow> x = Inl e \<or> (\<exists>v. x = Inr v \<and> f v = Inl e)"
  by (cases x) (simp_all add: bind_res_def)

lemma bind_res_Inr [simp]: "bind_res (Inr v) f = f v"
  by (simp add: bind_res_def)

lemma bind_res_Inl [simp]: "bind_res (Inl e) f = Inl e"
  by (simp add: bind_res_def)

subsection \<open>The bill of quantities\<close>

text \<open>
  C6: for every materials snapshot and every cost result, \<open>generate_boq\<close> returns exactly
  thirteen rows, labelled in the fixed order PCC, footing, column, beam and slab concrete,
  cement, sand, aggregate, steel, bricks, tiles, paint, plaster. The five concrete rows have
  neither rate nor amount; each of the other eight rows carries the applied rate of its rate
  key and the itemized cost of its category, both looked up in the cost result.
\<close>

theorem generate_boq_rows:
  "length (generate_boq m c) = 13
   \<and> map item (generate_boq m c) =
       [''PCC (Plain Cement Concrete)'', ''RCC Footing Concrete'', ''RCC Column Concrete'',
        ''RCC Beam Concrete'', ''RCC Slab Concrete'', ''Cement'', ''Sand'', ''Aggregate'',
        ''Steel Reinforcement'', ''Bricks'', ''Floor Tiles'', ''Paint'', ''Plaster'']
   \<and> map rate (generate_boq m c) =
       [None, None, None, None, None,
        map_of (applied_rates c) ''cement_per_bag'', map_of (applied_rates c) ''sand_per_m3'',
        map_of (applied_rates c) ''aggregate_per_m3'', map_of (applied_rates c) ''steel_per_kg'',
        map_of (applied_rates c) ''brick_per_100'', map_of (applied_rates c) ''tile_per_sqm'',
        map_of (applied_rates c) ''paint_per_liter'', map_of (applied_rates c) ''plaster_per_m3'']
   \<and> map amount (generate_boq m c) =
       [None, None, None, None, None,
        map_of (itemized_costs c) ''cement'', map_of (itemized_costs c) ''sand'',
        map_of (itemized_costs c) ''aggregate'', map_of (itemized_costs c) ''steel'',
        map_of (itemized_costs c) ''bricks'', map_of (itemized_costs c) ''tiles'',
        map_of (itemized_costs c) ''paint'', map_of (itemized_costs c) ''plaster'']"
  by (simp add: generate_boq_def Let_def)

subsection \<open>The cost calculator\<close>

lemma map_of_scale_rates:
  "map_of (scale_rates f rs) k = map_option (\<lambda>v. v * f) (map_of rs k)"
  by (induction rs) (auto simp: scale_rates_def)

lemma map_of_plan_rates_None:
  "map_of (plan_rates p rs) k = None \<longleftrightarrow> map_of rs k = None"
  by (simp add: plan_rates_def map_of_scale_rates)

lemma rate_of_Inr_iff: "rate_of rs k = Inr v \<longleftrightarrow> map_of rs k = Some v"
  by (simp add: rate_of_def split: option.splits)

lemma rate_of_None: "map_of rs k = None \<Longrightarrow> rate_of rs k = Inl (KeyError k)"
  by (simp add: rate_of_def)

lemma rate_of_Some: "map_of rs k = Some v \<Longrightarrow> rate_of rs k = Inr v"
  by (simp add: rate_of_def)

lemma rate_of_not_zerodiv: "rate_of rs k \<noteq> Inl ZeroDivisionError"
  by (simp add: rate_of_def split: option.splits)

lemma itemize_not_zerodiv: "itemize m rs \<noteq> Inl ZeroDivisionError"
  by (auto simp: itemize_def bind_res_Inl_iff rate_of_not_zerodiv)

lemma per_sqft_cases:
  "per_sqft t a = Inr (if a = 0 then None else Some (t / a))"
  by (simp add: per_sqft_def py_div_def)

lemma calculate_cost_Inr:
  assumes "calculate_cost m p cr = Inr r"
  shows "\<exists>its. itemize m (plan_rates p (base_rates cr)) = Inr its
    \<and> itemized_costs r = round_items its
    \<and> material_costs r = round_items its
    \<and> applied_rates r = plan_rates p (base_rates cr)
    \<and> total_material_cost r = py_round 2 (sum_list (map snd its))
    \<and> cost_per_sqft r =
          (if getq m ''finishing'' ''flooring_area_sqft'' = 0 then None
           else Some (py_round 2 (sum_list (map snd its) / getq m ''finishing'' ''flooring_area_sqft'')))"
  using assms
  by (auto simp: calculate_cost_def Let_def bind_res_Inr_iff per_sqft_cases split: if_splits)

lemma calculate_cost_not_zerodiv: "calculate_cost m p cr \<noteq> Inl ZeroDivisionError"
  by (auto simp: calculate_cost_def Let_def bind_res_Inl_iff itemize_not_zerodiv per_sqft_cases)

lemma itemize_Inr_keys:
  assumes "itemize m rs = Inr its"
  shows "map fst its = [''cement'', ''sand'', ''aggregate'', ''steel'',
                        ''bricks'', ''tiles'', ''paint'', ''plaster'']"
  using assms by (auto simp: itemize_def bind_res_Inr_iff)

lemma map_fst_round_items: "map fst (round_items its) = map fst its"
  by (induction its) (auto simp: round_items_def)

lemma py_round_upper: "py_round n x \<le> x + 1 / (2 * 10 ^ n)"
  using py_round_err [of n x] by (simp only: abs_le_iff) linarith

lemma py_round_lower: "x - 1 / (2 * 10 ^ n) \<le> py_round n x"
  using py_round_err [of n x] by (simp only: abs_le_iff) linarith

lemma py_round_2_bounds: "py_round 2 x \<le> x + 1 / 200" "x - 1 / 200 \<le> py_round 2 x"
  using py_round_upper [where n = 2 and x = x] py_round_lower [where n = 2 and x = x] by simp_all

lemma sum_round_items_bounds:
  "sum_list (map snd (round_items its)) \<le> sum_list (map snd its) + real (length its) * (1 / 200)
   \<and> sum_list (map snd its) - real (length its) * (1 / 200) \<le> sum_list (map snd (round_items its))"
proof (induction its)
  case Nil
  then show ?case by (simp add: round_items_def)
next
  case (Cons kv its)
  obtain k v where kv: "kv = (k, v)" by (cases kv)
  have r: "round_items (kv # its) = (k, py_round 2 v) # round_items its"
    by (simp add: kv round_items_def)
  have l: "real (length (kv # its)) * (1 / 200) = 1 / 200 + real (length its) * (1 / 200)"
    by (simp add: algebra_simps)
  show ?case
    unfolding r l using Cons py_round_2_bounds [of v] by (simp add: kv)
qed

text \<open>
  C2 (as amended): whenever \<open>calculate_cost\<close> returns a result, for every snapshot, plan and
  rate table, the result lists the eight categories cement, sand, aggregate, steel, bricks,
  tiles, paint, plaster; each reported itemized cost is the 2-decimal rounding of the
  category's cost; \<open>total_material_cost\<close> is the 2-decimal rounding of the sum of the eight
  costs before rounding; and it differs from the sum of the eight reported costs by at
  most 0.045 (nine roundings of at most 0.005 each).
\<close>

theorem total_cost_near_itemized:
  assumes "calculate_cost m p cr = Inr r"
  shows "map fst (itemized_costs r) =
           [''cement'', ''sand'', ''aggregate'', ''steel'', ''bricks'', ''tiles'', ''paint'', ''plaster'']
         \<and> (\<exists>its. itemize m (applied_rates r) = Inr its
                \<and> itemized_costs r = round_items its
                \<and> total_material_cost r = py_round 2 (sum_list (map snd its)))
         \<and> \<bar>total_material_cost r - sum_list (map snd (itemized_costs r))\<bar> \<le> 45 / 1000"
proof -
  from calculate_cost_Inr [OF assms]
  obtain its where its: "itemize m (plan_rates p (base_rates cr)) = Inr its"
    and ic: "itemized_costs r = round_items its"
    and ar: "applied_rates r = plan_rates p (base_rates cr)"
    and tot: "total_material_cost r = py_round 2 (sum_list (map snd its))"
    by blast
  have keys: "map fst its = [''cement'', ''sand'', ''aggregate'', ''steel'',
                        ''bricks'', ''tiles'', ''paint'', ''plaster'']"
    using its by (rule itemize_Inr_keys)
  then have "length (map fst its) = 8" by simp
  then have len: "length its = 8" by simp
  have "\<bar>total_material_cost r - sum_list (map snd (itemized_costs r))\<bar> \<le> 45 / 1000"
    unfolding tot ic abs_le_iff
    using py_round_2_bounds [of "sum_list (map snd its)"] sum_round_items_bounds [of its]
    by (simp add: len)
  moreover have "map fst (itemized_costs r) = [''cement'', ''sand'', ''aggregate'', ''steel'',
                        ''bricks'', ''tiles'', ''paint'', ''plaster'']"
    by (simp add: ic map_fst_round_items keys)
  moreover have "\<exists>its. itemize m (applied_rates r) = Inr its
                \<and> itemized_costs r = round_items its
                \<and> total_material_cost r = py_round 2 (sum_list (map snd its))"
    using its ic tot ar by auto
  ultimately show ?thesis by blast
qed

lemma getq_small:
  "getq small_snapshot ''cement'' ''total_bags'' = 10"
  "getq small_snapshot ''steel'' ''total_steel_kg'' = 0"
  "getq small_snapshot ''masonry'' ''brick_quantity'' = 0"
  "getq small_snapshot ''finishing'' ''flooring_area_m2'' = 0"
  "getq small_snapshot ''finishing'' ''paint_liters'' = 0"
  "getq small_snapshot ''finishing'' ''plaster_volume_m3'' = 0"
  "getq small_snapshot ''finishing'' ''flooring_area_sqft'' = 100"
  "sand_m3 small_snapshot = 1 / 1000"
  "agg_m3 small_snapshot = 1 / 1000"
  by (simp_all add: getq_def small_snapshot_def sand_m3_def agg_m3_def)

lemma itemize_small_custom:
  "itemize small_snapshot custom_table =
     Inr [(''cement'', 4200), (''sand'', 1203 / 1000), (''aggregate'', 903 / 1000), (''steel'', 0),
          (''bricks'', 0), (''tiles'', 0), (''paint'', 0), (''plaster'', 0)]"
  by (simp add: itemize_def rate_of_def custom_table_def getq_small)

lemma cost_small_custom:
  "calculate_cost small_snapshot ''standard'' (Some custom_table) =
     Inr \<lparr>itemized_costs = [(''cement'', 4200), (''sand'', 12 / 10), (''aggregate'', 9 / 10),
            (''steel'', 0), (''bricks'', 0), (''tiles'', 0), (''paint'', 0), (''plaster'', 0)],
          material_costs = [(''cement'', 4200), (''sand'', 12 / 10), (''aggregate'', 9 / 10),
            (''steel'', 0), (''bricks'', 0), (''tiles'', 0), (''paint'', 0), (''plaster'', 0)],
          applied_rates = custom_table,
          total_material_cost = 420211 / 100,
          cost_per_sqft = Some (4202 / 100),
          total_built_area_sqft = 100\<rparr>"
proof -
  have b: "plan_rates ''standard'' (base_rates (Some custom_table)) = custom_table"
    by (simp add: plan_rates_def base_rates_def custom_table_def)
  show ?thesis
    unfolding calculate_cost_def Let_def b itemize_small_custom
    by (simp add: per_sqft_cases getq_small round_items_def py_round_eval)
qed

text \<open>
  C2 as stated fails: with 0.001 cubic metres of sand at 1203 and of aggregate at 903 per
  cubic metre and ten bags at 420, the reported costs are 4200, 1.2 and 0.9 (sum 4202.1) and
  the reported total is 4202.11.
\<close>

theorem total_cost_counterexample:
  "\<not> isl (calculate_cost small_snapshot ''standard'' (Some custom_table))
   \<and> total_material_cost (projr (calculate_cost small_snapshot ''standard'' (Some custom_table)))
       = 4202.11
   \<and> sum_list (map snd (itemized_costs
         (projr (calculate_cost small_snapshot ''standard'' (Some custom_table))))) = 4202.1"
  by (simp add: cost_small_custom)

theorem total_cost_near_itemized_witness:
  "\<exists>r. calculate_cost small_snapshot ''standard'' (Some custom_table) = Inr r
       \<and> total_material_cost r = 420211 / 100
       \<and> sum_list (map snd (itemized_costs r)) = 42021 / 10
       \<and> \<bar>total_material_cost r - sum_list (map snd (itemized_costs r))\<bar> \<le> 45 / 1000"
  using total_cost_near_itemized [OF cost_small_custom] by (simp add: cost_small_custom)

subsection \<open>Unrecognised plans\<close>

lemma adjustment_factor_other:
  "p \<noteq> ''economy'' \<Longrightarrow> p \<noteq> ''premium'' \<Longrightarrow> adjustment_factor p = 1"
  by (simp add: adjustment_factor_def)

text \<open>
  C9: for every snapshot and every plan string other than \<^verbatim>\<open>'economy'\<close> and
  \<^verbatim>\<open>'premium'\<close> (a misspelling as much as \<^verbatim>\<open>'standard'\<close>), \<open>generate_plan_variants\<close>
  returns its input unchanged, \<open>calculate_cost\<close> behaves exactly as for \<^verbatim>\<open>'standard'\<close>, and
  the rates it applies are the selected rate table unscaled.
\<close>

theorem unrecognised_plan_is_standard:
  assumes "p \<noteq> ''economy''" and "p \<noteq> ''premium''"
  shows "generate_plan_variants m p = m
         \<and> calculate_cost m p cr = calculate_cost m ''standard'' cr
         \<and> (\<forall>r. calculate_cost m p cr = Inr r \<longrightarrow> applied_rates r = base_rates cr)"
proof -
  have pr: "plan_rates p (base_rates cr) = base_rates cr"
    using assms by (simp add: plan_rates_def)
  have ps: "plan_rates ''standard'' (base_rates cr) = base_rates cr"
    by (simp add: plan_rates_def)
  have "generate_plan_variants m p = m"
    using assms by (simp add: generate_plan_variants_def adjustment_factor_other)
  moreover have "calculate_cost m p cr = calculate_cost m ''standard'' cr"
    by (simp add: calculate_cost_def pr ps)
  moreover have "applied_rates r = base_rates cr" if "calculate_cost m p cr = Inr r" for r
    using calculate_cost_Inr [OF that] pr by auto
  ultimately show ?thesis by blast
qed

theorem unrecognised_plan_is_standard_witness:
  "''standrad'' \<noteq> ''economy'' \<and> ''standrad'' \<noteq> ''premium''
   \<and> generate_plan_variants small_snapshot ''standrad'' = small_snapshot
   \<and> (\<exists>r. calculate_cost small_snapshot ''standrad'' (Some custom_table) = Inr r
          \<and> applied_rates r = custom_table)"
proof -
  have ne: "''standrad'' \<noteq> ''economy''" "''standrad'' \<noteq> ''premium''" by simp_all
  have b: "base_rates (Some custom_table) = custom_table"
    by (simp add: base_rates_def custom_table_def)
  from unrecognised_plan_is_standard [OF ne, of small_snapshot "Some custom_table"]
  show ?thesis by (simp add: cost_small_custom b)
qed

subsection \<open>Cost per square foot\<close>

text \<open>
  C5: \<open>calculate_cost\<close> never raises \<^verbatim>\<open>ZeroDivisionError\<close>. In every result,
  \<open>cost_per_sqft\<close> is null exactly when \<^verbatim>\<open>finishing.flooring_area_sqft\<close> is 0 (an absent
  entry reads as 0); otherwise it is the 2-decimal rounding of \<open>t / area\<close>, where \<open>t\<close> is the
  total before rounding, of which the reported \<open>total_material_cost\<close> is the 2-decimal
  rounding: both are within 0.005 of the exact values.
\<close>

theorem cost_per_sqft_guarded:
  "calculate_cost m p cr \<noteq> Inl ZeroDivisionError
   \<and> (\<forall>r. calculate_cost m p cr = Inr r \<longrightarrow>
        (cost_per_sqft r = None \<longleftrightarrow> getq m ''finishing'' ''flooring_area_sqft'' = 0)
        \<and> (getq m ''finishing'' ''flooring_area_sqft'' \<noteq> 0 \<longrightarrow>
             (\<exists>c t. cost_per_sqft r = Some c
                \<and> total_material_cost r = py_round 2 t
                \<and> c = py_round 2 (t / getq m ''finishing'' ''flooring_area_sqft'')
                \<and> \<bar>c - t / getq m ''finishing'' ''flooring_area_sqft''\<bar> \<le> 1 / 200
                \<and> \<bar>total_material_cost r - t\<bar> \<le> 1 / 200)))"
proof -
  define a where "a = getq m ''finishing'' ''flooring_area_sqft''"
  have e: "\<bar>py_round 2 x - x\<bar> \<le> 1 / 200" for x
    using py_round_err [of 2 x] by simp
  have "(cost_per_sqft r = None \<longleftrightarrow> a = 0)
        \<and> (a \<noteq> 0 \<longrightarrow>
             (\<exists>c t. cost_per_sqft r = Some c
                \<and> total_material_cost r = py_round 2 t
                \<and> c = py_round 2 (t / a)
                \<and> \<bar>c - t / a\<bar> \<le> 1 / 200
                \<and> \<bar>total_material_cost r - t\<bar> \<le> 1 / 200))"
    if "calculate_cost m p cr = Inr r" for r
  proof -
    from calculate_cost_Inr [OF that] obtain its where
      h: "itemize m (plan_rates p (base_rates cr)) = Inr its
        \<and> itemized_costs r = round_items its
        \<and> material_costs r = round_items its
        \<and> applied_rates r = plan_rates p (base_rates cr)
        \<and> total_material_cost r = py_round 2 (sum_list (map snd its))
        \<and> cost_per_sqft r =
          (if getq m ''finishing'' ''flooring_area_sqft'' = 0 then None
           else Some (py_round 2 (sum_list (map snd its) / getq m ''finishing'' ''flooring_area_sqft'')))" ..
    from h have tot: "total_material_cost r = py_round 2 (sum_list (map snd its))"
      by simp
    from h have cps: "cost_per_sqft r =
          (if a = 0 then None else Some (py_round 2 (sum_list (map snd its) / a)))"
      unfolding a_def by simp
    show ?thesis
    proof (cases "a = 0")
      case True
      then show ?thesis by (simp add: cps)
    next
      case False
      have "cost_per_sqft r = Some (py_round 2 (sum_list (map snd its) / a))
            \<and> total_material_cost r = py_round 2 (sum_list (map snd its))
            \<and> py_round 2 (sum_list (map snd its) / a) = py_round 2 (sum_list (map snd its) / a)
            \<and> \<bar>py_round 2 (sum_list (map snd its) / a) - sum_list (map snd its) / a\<bar> \<le> 1 / 200
            \<and> \<bar>total_material_cost r - sum_list (map snd its)\<bar> \<le> 1 / 200"
        using False e [of "sum_list (map snd its) / a"] e [of "sum_list (map snd its)"]
        by (simp add: cps tot)
      then have "\<exists>c t. cost_per_sqft r = Some c
                \<and> total_material_cost r = py_round 2 t
                \<and> c = py_round 2 (t / a)
                \<and> \<bar>c - t / a\<bar> \<le> 1 / 200
                \<and> \<bar>total_material_cost r - t\<bar> \<le> 1 / 200"
        by (intro exI)
      with False show ?thesis by (simp add: cps)
    qed
  qed
  then show ?thesis
    unfolding a_def using calculate_cost_not_zerodiv by blast
qed

lemma cost_small_no_area:
  "\<exists>r. calculate_cost (small_snapshot(''finishing'' := None)) ''standard'' (Some custom_table) = Inr r"
proof -
  have b: "plan_rates ''standard'' (base_rates (Some custom_table)) = custom_table"
    by (simp add: plan_rates_def base_rates_def custom_table_def)
  have "\<exists>its. itemize (small_snapshot(''finishing'' := None)) custom_table = Inr its"
    by (simp add: itemize_def rate_of_def custom_table_def)
  then show ?thesis
    unfolding calculate_cost_def Let_def b
    by (auto simp: per_sqft_cases)
qed

theorem cost_per_sqft_guarded_witness:
  "(\<exists>r. calculate_cost small_snapshot ''standard'' (Some custom_table) = Inr r
       \<and> getq small_snapshot ''finishing'' ''flooring_area_sqft'' = 100
       \<and> cost_per_sqft r = Some (4202 / 100)
       \<and> total_material_cost r = 420211 / 100
       \<and> (\<exists>t. total_material_cost r = py_round 2 t
              \<and> cost_per_sqft r = Some (py_round 2 (t / 100))))
   \<and> (\<exists>r. calculate_cost (small_snapshot(''finishing'' := None)) ''standard'' (Some custom_table) = Inr r
       \<and> getq (small_snapshot(''finishing'' := None)) ''finishing'' ''flooring_area_sqft'' = 0
       \<and> cost_per_sqft r = None)"
proof -
  have a: "getq small_snapshot ''finishing'' ''flooring_area_sqft'' = 100"
    by (rule getq_small)
  have z: "getq (small_snapshot(''finishing'' := None)) ''finishing'' ''flooring_area_sqft'' = 0"
    by (simp add: getq_def)
  from cost_small_no_area obtain r0 where
    r0: "calculate_cost (small_snapshot(''finishing'' := None)) ''standard'' (Some custom_table) = Inr r0"
    ..
  have "cost_per_sqft r0 = None"
    using cost_per_sqft_guarded [of "small_snapshot(''finishing'' := None)" "''standard''" "Some custom_table"]
      r0 z by simp
  with r0 z have second: "\<exists>r. calculate_cost (small_snapshot(''finishing'' := None)) ''standard'' (Some custom_table) = Inr r
       \<and> getq (small_snapshot(''finishing'' := None)) ''finishing'' ''flooring_area_sqft'' = 0
       \<and> cost_per_sqft r = None" by simp
  have first: "\<exists>r. calculate_cost small_snapshot ''standard'' (Some custom_table) = Inr r
       \<and> getq small_snapshot ''finishing'' ''flooring_area_sqft'' = 100
       \<and> cost_per_sqft r = Some (4202 / 100)
       \<and> total_material_cost r = 420211 / 100
       \<and> (\<exists>t. total_material_cost r = py_round 2 t
              \<and> cost_per_sqft r = Some (py_round 2 (t / 100)))"
    using cost_per_sqft_guarded [of small_snapshot "''standard''" "Some custom_table"]
    by (simp add: cost_small_custom a) metis
  from first second show ?thesis ..
qed

subsection \<open>Missing rate keys\<close>

text \<open>
  C4 as stated fails on the empty table: it is not null and omits every key, and
  \<open>calculate_cost\<close> returns a result priced with the default rates.
\<close>

theorem empty_table_counterexample:
  "''cement_per_bag'' \<in> set required_rate_keys
   \<and> map_of ([] :: rate_table) ''cement_per_bag'' = None
   \<and> \<not> isl (calculate_cost small_snapshot ''standard'' (Some []))
   \<and> applied_rates (projr (calculate_cost small_snapshot ''standard'' (Some []))) = default_rates"
proof -
  have b: "plan_rates ''standard'' (base_rates (Some [])) = default_rates"
    by (simp add: plan_rates_def base_rates_def)
  have "\<exists>its. itemize small_snapshot default_rates = Inr its"
    by (simp add: itemize_def rate_of_def default_rates_def)
  then have "\<exists>r. calculate_cost small_snapshot ''standard'' (Some []) = Inr r
       \<and> applied_rates r = default_rates"
    unfolding calculate_cost_def Let_def b
    by (auto simp: per_sqft_cases)
  then show ?thesis by (auto simp: required_rate_keys_def)
qed

lemma rate_of_cases:
  "rate_of rs k = (case map_of rs k of None \<Rightarrow> Inl (KeyError k) | Some v \<Rightarrow> Inr v)"
  by (simp add: rate_of_def)

lemma itemize_find_missing:
  assumes "find (\<lambda>k. map_of rs k = None) required_rate_keys = Some k"
  shows "itemize m rs = Inl (KeyError k)"
proof -
  have s: "map_of rs k' \<noteq> None \<Longrightarrow> \<exists>v. rate_of rs k' = Inr v" for k'
    by (auto simp: rate_of_def)
  have n: "map_of rs k' = None \<Longrightarrow> rate_of rs k' = Inl (KeyError k')" for k'
    by (simp add: rate_of_def)
  show ?thesis
  proof (cases "map_of rs ''cement_per_bag'' = None")
    case True
    with assms show ?thesis by (simp add: required_rate_keys_def itemize_def n)
  next
    case c1: False
    from s [OF c1] obtain v1 where v1: "rate_of rs ''cement_per_bag'' = Inr v1" ..
    show ?thesis
    proof (cases "map_of rs ''sand_per_m3'' = None")
      case True
      with assms c1 show ?thesis by (simp add: required_rate_keys_def itemize_def n v1)
    next
      case c2: False
      from s [OF c2] obtain v2 where v2: "rate_of rs ''sand_per_m3'' = Inr v2" ..
      show ?thesis
      proof (cases "map_of rs ''aggregate_per_m3'' = None")
        case True
        with assms c1 c2 show ?thesis by (simp add: required_rate_keys_def itemize_def n v1 v2)
      next
        case c3: False
        from s [OF c3] obtain v3 where v3: "rate_of rs ''aggregate_per_m3'' = Inr v3" ..
        show ?thesis
        proof (cases "map_of rs ''steel_per_kg'' = None")
          case True
          with assms c1 c2 c3 show ?thesis
            by (simp add: required_rate_keys_def itemize_def n v1 v2 v3)
        next
          case c4: False
          from s [OF c4] obtain v4 where v4: "rate_of rs ''steel_per_kg'' = Inr v4" ..
          show ?thesis
          proof (cases "map_of rs ''brick_per_100'' = None")
            case True
            with assms c1 c2 c3 c4 show ?thesis
              by (simp add: required_rate_keys_def itemize_def n v1 v2 v3 v4)
          next
            case c5: False
            from s [OF c5] obtain v5 where v5: "rate_of rs ''brick_per_100'' = Inr v5" ..
            show ?thesis
            proof (cases "map_of rs ''tile_per_sqm'' = None")
              case True
              with assms c1 c2 c3 c4 c5 show ?thesis
                by (simp add: required_rate_keys_def itemize_def n v1 v2 v3 v4 v5)
            next
              case c6: False
              from s [OF c6] obtain v6 where v6: "rate_of rs ''tile_per_sqm'' = Inr v6" ..
              show ?thesis
              proof (cases "map_of rs ''paint_per_liter'' = None")
                case True
                with assms c1 c2 c3 c4 c5 c6 show ?thesis
                  by (simp add: required_rate_keys_def itemize_def n v1 v2 v3 v4 v5 v6)
              next
                case c7: False
                from s [OF c7] obtain v7 where v7: "rate_of rs ''paint_per_liter'' = Inr v7" ..
                from assms c1 c2 c3 c4 c5 c6 c7
                have "map_of rs ''plaster_per_m3'' = None \<and> k = ''plaster_per_m3''"
                  by (simp add: required_rate_keys_def split: if_splits)
                then show ?thesis
                  by (simp add: itemize_def n v1 v2 v3 v4 v5 v6 v7)
              qed
            qed
          qed
        qed
      qed
    qed
  qed
qed

text \<open>
  C4 (as amended): for every supplied rate table that is not empty and omits at least one
  of the eight required keys, \<open>calculate_cost\<close> raises \<^verbatim>\<open>KeyError\<close> for a required key
  that the table omits (the first one in the order of use), whatever the snapshot and the
  plan; no default is substituted.
\<close>

theorem missing_rate_key_raises:
  assumes "cr \<noteq> []" and "\<exists>k \<in> set required_rate_keys. map_of cr k = None"
  shows "\<exists>k \<in> set required_rate_keys.
           map_of cr k = None \<and> calculate_cost m p (Some cr) = Inl (KeyError k)"
proof -
  let ?rs = "plan_rates p (base_rates (Some cr))"
  have none: "map_of ?rs k = None \<longleftrightarrow> map_of cr k = None" for k
    using assms(1) by (simp add: base_rates_def map_of_plan_rates_None)
  from assms(2) have "find (\<lambda>k. map_of ?rs k = None) required_rate_keys \<noteq> None"
    by (auto simp: find_None_iff none)
  then obtain k where k: "find (\<lambda>k. map_of ?rs k = None) required_rate_keys = Some k"
    by blast
  then have "k \<in> set required_rate_keys" and "map_of cr k = None"
    by (auto simp: find_Some_iff none)
  moreover have "itemize m ?rs = Inl (KeyError k)"
    using k by (rule itemize_find_missing)
  then have "calculate_cost m p (Some cr) = Inl (KeyError k)"
    by (simp add: calculate_cost_def)
  ultimately show ?thesis by blast
qed

theorem missing_rate_key_raises_witness:
  "partial_table \<noteq> [] \<and> map_of partial_table ''sand_per_m3'' = None
   \<and> ''sand_per_m3'' \<in> set required_rate_keys
   \<and> (\<exists>k \<in> set required_rate_keys. map_of partial_table k = None
         \<and> calculate_cost small_snapshot ''premium'' (Some partial_table) = Inl (KeyError k))"
proof -
  have a: "partial_table \<noteq> []" by (simp add: partial_table_def)
  have b: "map_of partial_table ''sand_per_m3'' = None" "''sand_per_m3'' \<in> set required_rate_keys"
    by (simp_all add: partial_table_def required_rate_keys_def)
  then have c: "\<exists>k \<in> set required_rate_keys. map_of partial_table k = None" by blast
  from missing_rate_key_raises [OF a c, of small_snapshot "''premium''"] a b
  show ?thesis by blast
qed

subsection \<open>Plan variants\<close>

lemma getq_adjust_section:
  "getq (adjust_section f n name m) sec key =
     (if sec = name then py_round n (getq m sec key * f) else getq m sec key)"
  by (auto simp: adjust_section_def scale_section_def getq_def py_round_0 split: option.splits)

lemma getq_adjust_key:
  "getq (adjust_key f name k m) sec key =
     (if sec = name \<and> key = k then py_round 0 (getq m sec key * f) else getq m sec key)"
  by (auto simp: adjust_key_def getq_def py_round_0 split: option.splits)

lemma getq_generate_plan_variants:
  assumes "adjustment_factor p \<noteq> 1"
  shows "getq (generate_plan_variants m p) sec key =
     (case adjusted_digits sec key of
        None \<Rightarrow> getq m sec key
      | Some n \<Rightarrow> py_round n (getq m sec key * adjustment_factor p))"
  using assms
  by (simp add: generate_plan_variants_def Let_def getq_adjust_section getq_adjust_key
      adjusted_digits_def)

lemma factor_values:
  "adjustment_factor ''economy'' = 108 / 100"
  "adjustment_factor ''premium'' = 95 / 100"
  "adjustment_factor ''standard'' = 1"
  by (simp_all add: adjustment_factor_def)

lemma getq_standard: "getq (generate_plan_variants m ''standard'') sec key = getq m sec key"
  by (simp add: generate_plan_variants_def factor_values)

text \<open>
  Where the value of a scaled field is not negative, its economy value is at least its
  premium value; and where the value moreover lies on the grid to which the field is
  rounded when scaled (a multiple of \<open>10^-n\<close>, with \<open>n\<close> the decimals of its \<^verbatim>\<open>round\<close>
  call), the three plans are ordered: economy \<open>\<ge>\<close> standard \<open>\<ge>\<close> premium.
\<close>

lemma plan_order_on_grid:
  assumes "adjusted_digits sec key = Some n" and "0 \<le> getq m sec key"
  shows "getq (generate_plan_variants m ''premium'') sec key
           \<le> getq (generate_plan_variants m ''economy'') sec key
         \<and> ((\<exists>k :: int. getq m sec key = of_int k / 10 ^ n) \<longrightarrow>
              getq (generate_plan_variants m ''premium'') sec key
                \<le> getq (generate_plan_variants m ''standard'') sec key
              \<and> getq (generate_plan_variants m ''standard'') sec key
                \<le> getq (generate_plan_variants m ''economy'') sec key)"
proof -
  define v where "v = getq m sec key"
  have v: "0 \<le> v" using assms(2) by (simp add: v_def)
  have e: "getq (generate_plan_variants m ''economy'') sec key = py_round n (v * (108 / 100))"
    using assms(1) by (simp add: getq_generate_plan_variants factor_values v_def)
  have p: "getq (generate_plan_variants m ''premium'') sec key = py_round n (v * (95 / 100))"
    using assms(1) by (simp add: getq_generate_plan_variants factor_values v_def)
  have s: "getq (generate_plan_variants m ''standard'') sec key = v"
    by (simp add: getq_standard v_def)
  have lo: "v * (95 / 100) \<le> v" and hi: "v \<le> v * (108 / 100)"
    using v by simp_all
  have pe: "py_round n (v * (95 / 100)) \<le> py_round n (v * (108 / 100))"
    using lo hi by (intro py_round_mono) simp
  have grid: "py_round n (v * (95 / 100)) \<le> v \<and> v \<le> py_round n (v * (108 / 100))"
    if "\<exists>k :: int. v = of_int k / 10 ^ n"
  proof -
    from that obtain k :: int where k: "v = of_int k / 10 ^ n" ..
    have r: "py_round n v = v" unfolding k by (rule py_round_grid)
    from py_round_mono [OF lo, of n] py_round_mono [OF hi, of n] r
    show ?thesis by simp
  qed
  show ?thesis
    unfolding e p s v_def [symmetric] using pe grid by blast
qed

subsection \<open>Snapshots of \<open>calculate_materials\<close>\<close>

lemma getq_build_concrete:
  "getq (build_materials p b t) ''concrete'' ''pcc_volume'' = py_round 2 (pcc_vol p)"
  "getq (build_materials p b t) ''concrete'' ''footing_rcc'' = py_round 2 (footing_vol p)"
  "getq (build_materials p b t) ''concrete'' ''column_rcc'' = py_round 2 (column_vol p)"
  "getq (build_materials p b t) ''concrete'' ''beam_rcc'' = py_round 2 (beam_vol p)"
  "getq (build_materials p b t) ''concrete'' ''slab_rcc'' = py_round 2 (slab_vol p)"
  "getq (build_materials p b t) ''concrete'' ''total_rcc'' =
     py_round 2 (footing_vol p + column_vol p + beam_vol p + slab_vol p)"
  by (simp_all add: build_materials_def getq_def)

lemma getq_build_cement:
  "getq (build_materials p b t) ''cement'' ''for_concrete'' = py_round 0 (cement_bags_concrete p)"
  "getq (build_materials p b t) ''cement'' ''for_mortarbrickwork'' =
     py_round 0 (cement_for_mortar_bags p)"
  "getq (build_materials p b t) ''cement'' ''for_plaster'' = py_round 0 (cement_for_plaster_bags p)"
  "getq (build_materials p b t) ''cement'' ''total_bags'' =
     py_round 0 (py_round 0 (cement_bags_concrete p) + py_round 0 (cement_for_mortar_bags p)
                 + py_round 0 (cement_for_plaster_bags p))"
  by (simp_all add: build_materials_def getq_def)

lemma getq_build_sand:
  "getq (build_materials p b t) ''sand'' ''concrete_sand_m3'' = py_round 3 (sand_vol p)"
  "getq (build_materials p b t) ''sand'' ''concrete_sand_kg'' = py_round 1 (sand_mass_kg p)"
  "getq (build_materials p b t) ''sand'' ''brickwork_sand_m3'' = py_round 3 (mortar_sand_vol p)"
  "getq (build_materials p b t) ''sand'' ''brickwork_sand_kg'' = py_round 1 (mortar_sand_kg p)"
  "getq (build_materials p b t) ''sand'' ''plaster_sand_m3'' = py_round 3 (plaster_sand_vol p)"
  "getq (build_materials p b t) ''sand'' ''plaster_sand_kg'' = py_round 1 (plaster_sand_kg p)"
  "getq (build_materials p b t) ''sand'' ''total_sand_kg'' =
     py_round 1 (sand_mass_kg p + mortar_sand_kg p + plaster_sand_kg p)"
  by (simp_all add: build_materials_def getq_def)

lemma getq_build_aggregate:
  "getq (build_materials p b t) ''aggregate'' ''concrete_aggregate_m3'' = py_round 3 (agg_vol p)"
  "getq (build_materials p b t) ''aggregate'' ''concrete_aggregate_kg'' = py_round 1 (agg_mass_kg p)"
  "getq (build_materials p b t) ''aggregate'' ''total_aggregate_kg'' = py_round 1 (agg_mass_kg p)"
  by (simp_all add: build_materials_def getq_def)

lemma getq_build_steel:
  "getq (build_materials p b t) ''steel'' ''footing_steel_kg'' = py_round 1 (steel_for_footing p)"
  "getq (build_materials p b t) ''steel'' ''column_steel_kg'' = py_round 1 (steel_for_column p)"
  "getq (build_materials p b t) ''steel'' ''beam_steel_kg'' = py_round 1 (steel_for_beam p)"
  "getq (build_materials p b t) ''steel'' ''slab_steel_kg'' = py_round 1 (steel_for_slab p)"
  "getq (build_materials p b t) ''steel'' ''total_steel_kg'' =
     py_round 1 (steel_for_footing p + steel_for_column p + steel_for_beam p + steel_for_slab p)"
  by (simp_all add: build_materials_def getq_def)

lemma getq_build_masonry:
  "getq (build_materials p b t) ''masonry'' ''brick_quantity'' = py_round 0 (wall_volume p * b)"
  "getq (build_materials p b t) ''masonry'' ''mortar_volume_m3'' = py_round 3 (mortar_volume p)"
  by (simp_all add: build_materials_def getq_def)

lemma getq_build_finishing:
  "getq (build_materials p b t) ''finishing'' ''floor_tiles_qty'' = py_round 0 (t * 1.05)"
  "getq (build_materials p b t) ''finishing'' ''paint_liters'' = py_round 2 (paint_required_l p)"
  "getq (build_materials p b t) ''finishing'' ''plaster_volume_m3'' =
     py_round 3 (total_plaster_vol p)"
  "getq (build_materials p b t) ''finishing'' ''flooring_area_sqft'' =
     py_round 2 (flooring_area_sqft p)"
  "getq (build_materials p b t) ''finishing'' ''flooring_area_m2'' =
     py_round 3 (flooring_area_sqft p * SQFT_TO_SQM)"
  "getq (build_materials p b t) ''finishing'' ''tile_area_m2'' =
     py_round 4 (tile_area_sqft p * SQFT_TO_SQM)"
  by (simp_all add: build_materials_def getq_def)

lemma compute_materials_total:
  "\<exists>b t. compute_materials p = Inr (build_materials p b t)
         \<and> (brick_size p \<le> 0 \<longrightarrow> b = 0)"
  by (auto simp: compute_materials_def bricks_per_m3_def tiles_required_def py_div_def)

lemma calculate_materials_Inr:
  assumes "calculate_materials inp = Inr m"
  shows "\<exists>p b t. read_inputs inp = Inr p \<and> m = build_materials p b t"
proof -
  from assms obtain p where p: "read_inputs inp = Inr p" and c: "compute_materials p = Inr m"
    by (auto simp: calculate_materials_def bind_res_Inr_iff)
  from compute_materials_total [of p] c p show ?thesis by auto
qed

subsection \<open>Totals and components\<close>

lemma py_round_bounds:
  "py_round 0 x \<le> x + 1 / 2" "x - 1 / 2 \<le> py_round 0 x"
  "py_round 1 x \<le> x + 1 / 20" "x - 1 / 20 \<le> py_round 1 x"
  "py_round 2 x \<le> x + 1 / 200" "x - 1 / 200 \<le> py_round 2 x"
  using py_round_upper [where n = 0 and x = x] py_round_lower [where n = 0 and x = x]
    py_round_upper [where n = 1 and x = x] py_round_lower [where n = 1 and x = x]
    py_round_upper [where n = 2 and x = x] py_round_lower [where n = 2 and x = x]
  by simp_all

lemma py_round_0_ceil: "py_round 0 (ceil x) = ceil x"
  using py_round_grid [of 0 "\<lceil>x\<rceil>"] by (simp add: ceil_def)

lemma py_round_0_int_sum:
  "py_round 0 (ceil x + ceil y + ceil z) = ceil x + ceil y + ceil z"
  using py_round_grid [of 0 "\<lceil>x\<rceil> + \<lceil>y\<rceil> + \<lceil>z\<rceil>"] by (simp add: ceil_def)

lemma base_gaps:
  "rcc_gap (build_materials p b t) \<le> 25 / 1000"
  "cement_gap (build_materials p b t) = 0"
  "steel_gap (build_materials p b t) \<le> 25 / 100"
  "sand_gap (build_materials p b t) \<le> 2 / 10"
proof -
  show "rcc_gap (build_materials p b t) \<le> 25 / 1000"
    unfolding rcc_gap_def getq_build_concrete abs_le_iff
    using py_round_bounds(5,6) [of "footing_vol p"] py_round_bounds(5,6) [of "column_vol p"]
      py_round_bounds(5,6) [of "beam_vol p"] py_round_bounds(5,6) [of "slab_vol p"]
      py_round_bounds(5,6) [of "footing_vol p + column_vol p + beam_vol p + slab_vol p"]
    by simp
  show "cement_gap (build_materials p b t) = 0"
    unfolding cement_gap_def getq_build_cement
    by (simp add: cement_bags_concrete_def cement_for_mortar_bags_def cement_for_plaster_bags_def
        py_round_0_ceil py_round_0_int_sum)
  show "steel_gap (build_materials p b t) \<le> 25 / 100"
    unfolding steel_gap_def getq_build_steel abs_le_iff
    using py_round_bounds(3,4) [of "steel_for_footing p"] py_round_bounds(3,4) [of "steel_for_column p"]
      py_round_bounds(3,4) [of "steel_for_beam p"] py_round_bounds(3,4) [of "steel_for_slab p"]
      py_round_bounds(3,4) [of "steel_for_footing p + steel_for_column p + steel_for_beam p + steel_for_slab p"]
    by simp
  show "sand_gap (build_materials p b t) \<le> 2 / 10"
    unfolding sand_gap_def getq_build_sand abs_le_iff
    using py_round_bounds(3,4) [of "sand_mass_kg p"] py_round_bounds(3,4) [of "mortar_sand_kg p"]
      py_round_bounds(3,4) [of "plaster_sand_kg p"]
      py_round_bounds(3,4) [of "sand_mass_kg p + mortar_sand_kg p + plaster_sand_kg p"]
    by simp
qed

lemma scaled_diff:
  fixes f g :: real
  assumes "0 \<le> f" and "f \<le> 108 / 100" and "\<bar>T - S\<bar> \<le> g"
  shows "\<bar>T * f - S * f\<bar> \<le> 108 / 100 * g"
proof -
  have "\<bar>T * f - S * f\<bar> = \<bar>T - S\<bar> * f"
    using assms(1) by (simp add: abs_mult left_diff_distrib [symmetric])
  also have "\<dots> \<le> g * (108 / 100)"
    using assms by (intro mult_mono) auto
  finally show ?thesis by simp
qed

lemma scaled_gap4:
  fixes f g h :: real
  assumes f: "0 \<le> f" "f \<le> 108 / 100" and g: "\<bar>T - (a + b + c + d)\<bar> \<le> g"
    and r: "\<And>x. R x \<le> x + h" "\<And>x. x - h \<le> R x"
  shows "\<bar>R (T * f) - (R (a * f) + R (b * f) + R (c * f) + R (d * f))\<bar> \<le> 5 * h + 108 / 100 * g"
proof -
  have "\<bar>T * f - (a + b + c + d) * f\<bar> \<le> 108 / 100 * g"
    using f g by (rule scaled_diff)
  then have "\<bar>T * f - (a * f + b * f + c * f + d * f)\<bar> \<le> 108 / 100 * g"
    by (simp add: algebra_simps)
  then show ?thesis
    unfolding abs_le_iff
    using r [of "T * f"] r [of "a * f"] r [of "b * f"] r [of "c * f"] r [of "d * f"]
    by linarith
qed

lemma scaled_gap3:
  fixes f g h :: real
  assumes f: "0 \<le> f" "f \<le> 108 / 100" and g: "\<bar>T - (a + b + c)\<bar> \<le> g"
    and r: "\<And>x. R x \<le> x + h" "\<And>x. x - h \<le> R x"
  shows "\<bar>R (T * f) - (R (a * f) + R (b * f) + R (c * f))\<bar> \<le> 4 * h + 108 / 100 * g"
proof -
  have "\<bar>T * f - (a + b + c) * f\<bar> \<le> 108 / 100 * g"
    using f g by (rule scaled_diff)
  then have "\<bar>T * f - (a * f + b * f + c * f)\<bar> \<le> 108 / 100 * g"
    by (simp add: algebra_simps)
  then show ?thesis
    unfolding abs_le_iff
    using r [of "T * f"] r [of "a * f"] r [of "b * f"] r [of "c * f"]
    by linarith
qed

lemma factor_range: "0 \<le> adjustment_factor p" "adjustment_factor p \<le> 108 / 100"
  by (simp_all add: adjustment_factor_def)

lemma digits_simps:
  "adjusted_digits ''concrete'' k = Some 2" "adjusted_digits ''cement'' k = Some 0"
  "adjusted_digits ''steel'' k = Some 1" "adjusted_digits ''sand'' k = Some 1"
  "adjusted_digits ''aggregate'' k = Some 1"
  by (simp_all add: adjusted_digits_def)

lemma variant_gaps:
  assumes "rcc_gap m \<le> 25 / 1000" "cement_gap m = 0" "steel_gap m \<le> 25 / 100"
    "sand_gap m \<le> 2 / 10"
  shows "rcc_gap (generate_plan_variants m p) \<le> 52 / 1000"
    and "cement_gap (generate_plan_variants m p) \<le> 2"
    and "steel_gap (generate_plan_variants m p) \<le> 52 / 100"
    and "sand_gap (generate_plan_variants m p) \<le> 416 / 1000"
proof -
  show "rcc_gap (generate_plan_variants m p) \<le> 52 / 1000"
  proof (cases "adjustment_factor p = 1")
    case True
    then have "generate_plan_variants m p = m" by (simp add: generate_plan_variants_def)
    with assms(1) show ?thesis by simp
  next
    case False
    have "rcc_gap (generate_plan_variants m p) \<le> 5 * (1 / 200) + 108 / 100 * (25 / 1000)"
      unfolding rcc_gap_def getq_generate_plan_variants [OF False] digits_simps option.case
      by (rule scaled_gap4 [OF factor_range assms(1) [unfolded rcc_gap_def] py_round_bounds(5,6)])
    then show ?thesis by simp
  qed
  show "cement_gap (generate_plan_variants m p) \<le> 2"
  proof (cases "adjustment_factor p = 1")
    case True
    then have "generate_plan_variants m p = m" by (simp add: generate_plan_variants_def)
    with assms(2) show ?thesis by simp
  next
    case False
    have g: "\<bar>getq m ''cement'' ''total_bags''
      - (getq m ''cement'' ''for_concrete'' + getq m ''cement'' ''for_mortarbrickwork''
         + getq m ''cement'' ''for_plaster'')\<bar> \<le> 0"
      using assms(2) by (simp add: cement_gap_def)
    have "cement_gap (generate_plan_variants m p) \<le> 4 * (1 / 2) + 108 / 100 * 0"
      unfolding cement_gap_def getq_generate_plan_variants [OF False] digits_simps option.case
      by (rule scaled_gap3 [OF factor_range g py_round_bounds(1,2)])
    then show ?thesis by simp
  qed
  show "steel_gap (generate_plan_variants m p) \<le> 52 / 100"
  proof (cases "adjustment_factor p = 1")
    case True
    then have "generate_plan_variants m p = m" by (simp add: generate_plan_variants_def)
    with assms(3) show ?thesis by simp
  next
    case False
    have "steel_gap (generate_plan_variants m p) \<le> 5 * (1 / 20) + 108 / 100 * (25 / 100)"
      unfolding steel_gap_def getq_generate_plan_variants [OF False] digits_simps option.case
      by (rule scaled_gap4 [OF factor_range assms(3) [unfolded steel_gap_def] py_round_bounds(3,4)])
    then show ?thesis by simp
  qed
  show "sand_gap (generate_plan_variants m p) \<le> 416 / 1000"
  proof (cases "adjustment_factor p = 1")
    case True
    then have "generate_plan_variants m p = m" by (simp add: generate_plan_variants_def)
    with assms(4) show ?thesis by simp
  next
    case False
    have "sand_gap (generate_plan_variants m p) \<le> 4 * (1 / 20) + 108 / 100 * (2 / 10)"
      unfolding sand_gap_def getq_generate_plan_variants [OF False] digits_simps option.case
      by (rule scaled_gap3 [OF factor_range assms(4) [unfolded sand_gap_def] py_round_bounds(3,4)])
    then show ?thesis by simp
  qed
qed

text \<open>
  C1: for every input set on which \<open>calculate_materials\<close> returns a snapshot, and every
  plan, the four declared totals agree with the sums of their declared components within
  the accumulated rounding, in the snapshot and in its plan variant. In the snapshot:
  \<open>total_rcc\<close> within 0.025 (five roundings to 0.01), \<open>total_bags\<close> exactly,
  \<open>total_steel_kg\<close> within 0.25 (five roundings to 0.1), \<open>total_sand_kg\<close> within 0.2 (four
  roundings to 0.1). In the variant every field is scaled by at most 1.08 and rounded
  again: \<open>total_rcc\<close> within 0.052, \<open>total_bags\<close> within 2 (four roundings to whole bags),
  \<open>total_steel_kg\<close> within 0.52, \<open>total_sand_kg\<close> within 0.416.
\<close>

theorem totals_within_rounding:
  assumes "calculate_materials inp = Inr m"
  shows "rcc_gap m \<le> 0.025 \<and> cement_gap m = 0 \<and> steel_gap m \<le> 0.25 \<and> sand_gap m \<le> 0.2
         \<and> rcc_gap (generate_plan_variants m p) \<le> 0.052
         \<and> cement_gap (generate_plan_variants m p) \<le> 2
         \<and> steel_gap (generate_plan_variants m p) \<le> 0.52
         \<and> sand_gap (generate_plan_variants m p) \<le> 0.416"
proof -
  from calculate_materials_Inr [OF assms] obtain q b t where m: "m = build_materials q b t"
    by blast
  have base: "rcc_gap m \<le> 25 / 1000" "cement_gap m = 0" "steel_gap m \<le> 25 / 100"
    "sand_gap m \<le> 2 / 10"
    unfolding m by (rule base_gaps)+
  from base variant_gaps [OF base, of p] show ?thesis by simp
qed

subsection \<open>The scenario, evaluated\<close>

lemmas read_defs = read_inputs_def int_of_def float_of_def subscript_def py_float_def
  py_int_def py_trunc_def get_default_def float_get_def int_get_def py_lower_def lower_char_def

lemma read_scenario: "read_inputs scenario = Inr scenario_params"
  by (simp add: read_defs scenario_def scenario_params_def)

lemma compute_scenario: "compute_materials scenario_params = Inr scenario_materials"
  by (simp add: compute_materials_def bricks_per_m3_def tiles_required_def tile_area_sqft_def
      py_div_def scenario_params_def scenario_materials_def)

lemma calculate_scenario: "calculate_materials scenario = Inr scenario_materials"
  by (simp add: calculate_materials_def read_scenario compute_scenario)

theorem totals_within_rounding_witness:
  "calculate_materials scenario = Inr scenario_materials
   \<and> rcc_gap scenario_materials \<le> 0.025 \<and> cement_gap scenario_materials = 0
   \<and> steel_gap scenario_materials \<le> 0.25 \<and> sand_gap scenario_materials \<le> 0.2
   \<and> rcc_gap (generate_plan_variants scenario_materials ''economy'') \<le> 0.052
   \<and> cement_gap (generate_plan_variants scenario_materials ''economy'') \<le> 2
   \<and> steel_gap (generate_plan_variants scenario_materials ''economy'') \<le> 0.52
   \<and> sand_gap (generate_plan_variants scenario_materials ''economy'') \<le> 0.416"
  using totals_within_rounding [OF calculate_scenario, of "''economy''"] calculate_scenario
  by simp

subsection \<open>The guarded brick division\<close>

lemma text_not_zerodiv:
  "int_text s \<noteq> Inl ZeroDivisionError" "float_text s \<noteq> Inl ZeroDivisionError"
  by (auto simp: int_text_def float_text_def Let_def split: prod.splits option.splits if_splits)

lemma reader_not_zerodiv:
  "int_of inp k \<noteq> Inl ZeroDivisionError" "float_of inp k \<noteq> Inl ZeroDivisionError"
  "subscript inp k \<noteq> Inl ZeroDivisionError" "py_lower v \<noteq> Inl ZeroDivisionError"
  "float_get inp k d \<noteq> Inl ZeroDivisionError" "int_get inp k d \<noteq> Inl ZeroDivisionError"
  by (auto simp: int_of_def float_of_def subscript_def py_lower_def float_get_def int_get_def
      py_float_def py_int_def bind_res_def text_not_zerodiv
      split: option.splits pyval.splits sum.splits)

lemma read_inputs_not_zerodiv: "read_inputs inp \<noteq> Inl ZeroDivisionError"
  by (auto simp: read_inputs_def bind_res_Inl_iff reader_not_zerodiv)

lemma compute_materials_not_error: "compute_materials p \<noteq> Inl e"
  using compute_materials_total [of p] by auto

lemma read_inputs_brick_size:
  assumes "read_inputs inp = Inr p"
  shows "\<exists>l w h. float_get inp ''brick_length_m'' 0.230 = Inr l
           \<and> float_get inp ''brick_width_m'' 0.115 = Inr w
           \<and> float_get inp ''brick_height_m'' 0.075 = Inr h
           \<and> brick_size p = l * w * h"
  using assms by (auto simp: read_inputs_def bind_res_Inr_iff)

lemma calculate_materials_not_zerodiv: "calculate_materials inp \<noteq> Inl ZeroDivisionError"
  by (auto simp: calculate_materials_def bind_res_Inl_iff read_inputs_not_zerodiv
      compute_materials_not_error)

text \<open>
  C10: for every input set whose fields all convert, if the brick dimensions
  \<^verbatim>\<open>brick_length_m\<close>, \<^verbatim>\<open>brick_width_m\<close>, \<^verbatim>\<open>brick_height_m\<close> (each with its default) have
  a product that is not positive, \<open>calculate_materials\<close> raises no \<^verbatim>\<open>ZeroDivisionError\<close>
  and returns a snapshot that has a \<^verbatim>\<open>masonry\<close> section with the entry
  \<^verbatim>\<open>brick_quantity\<close>, set to 0.
\<close>

theorem non_positive_brick_volume:
  assumes "read_inputs inp = Inr p"
    and "float_get inp ''brick_length_m'' 0.230 = Inr l"
    and "float_get inp ''brick_width_m'' 0.115 = Inr w"
    and "float_get inp ''brick_height_m'' 0.075 = Inr h"
    and "l * w * h \<le> 0"
  shows "calculate_materials inp \<noteq> Inl ZeroDivisionError
         \<and> (\<exists>m sec. calculate_materials inp = Inr m
                \<and> m ''masonry'' = Some sec \<and> sec ''brick_quantity'' = Some 0
                \<and> getq m ''masonry'' ''brick_quantity'' = 0)"
proof -
  from read_inputs_brick_size [OF assms(1)] assms(2-4) have "brick_size p = l * w * h"
    by auto
  with assms(5) have np: "brick_size p \<le> 0" by simp
  from compute_materials_total [of p] np obtain t where
    "compute_materials p = Inr (build_materials p 0 t)" by auto
  then have c: "calculate_materials inp = Inr (build_materials p 0 t)"
    by (simp add: calculate_materials_def assms(1))
  define sec :: quantities where
    "sec = map_of [(''brick_quantity'', py_round 0 (wall_volume p * 0)),
                   (''mortar_volume_m3'', py_round 3 (mortar_volume p))]"
  have s1: "build_materials p 0 t ''masonry'' = Some sec"
    by (simp add: build_materials_def sec_def)
  have s2: "sec ''brick_quantity'' = Some 0"
    by (simp add: sec_def py_round_0)
  have s3: "getq (build_materials p 0 t) ''masonry'' ''brick_quantity'' = 0"
    by (simp add: getq_build_masonry py_round_0)
  from c s1 s2 s3 show ?thesis by auto
qed

lemma read_flat_brick:
  "read_inputs flat_brick_scenario = Inr (scenario_params\<lparr>brick_size := 0\<rparr>)"
  by (simp add: read_defs flat_brick_scenario_def scenario_def scenario_params_def)

lemma flat_brick_dims:
  "float_get flat_brick_scenario ''brick_length_m'' 0.230 = Inr 0"
  "float_get flat_brick_scenario ''brick_width_m'' 0.115 = Inr 0.115"
  "float_get flat_brick_scenario ''brick_height_m'' 0.075 = Inr 0.075"
  by (simp_all add: float_get_def get_default_def py_float_def flat_brick_scenario_def scenario_def)

theorem non_positive_brick_volume_witness:
  "read_inputs flat_brick_scenario = Inr (scenario_params\<lparr>brick_size := 0\<rparr>)
   \<and> float_get flat_brick_scenario ''brick_length_m'' 0.230 = Inr 0
   \<and> (0 :: real) * 0.115 * 0.075 \<le> 0
   \<and> calculate_materials flat_brick_scenario \<noteq> Inl ZeroDivisionError
   \<and> (\<exists>m sec. calculate_materials flat_brick_scenario = Inr m
          \<and> m ''masonry'' = Some sec \<and> sec ''brick_quantity'' = Some 0
          \<and> getq m ''masonry'' ''brick_quantity'' = 0)"
proof -
  have z: "(0 :: real) * 0.115 * 0.075 \<le> 0" by simp
  from non_positive_brick_volume [OF read_flat_brick flat_brick_dims z] read_flat_brick
    flat_brick_dims(1)
  show ?thesis by simp
qed

lemmas conv_defs = FT_TO_M_def INCH_TO_M_def SQFT_TO_SQM_def

lemma scenario_vols:
  "footing_vol scenario_params = 8 * (4 * 0.3048) * (4 * 0.3048) * (1 * 0.3048)"
  "pcc_vol scenario_params = 8 * (4 * 0.3048) * (4 * 0.3048) * (3 * 0.0254)"
  "column_vol scenario_params = 8 * 2 * (12 * 0.0254) * (12 * 0.0254) * (10 * 0.3048)"
  "beam_vol scenario_params = (200 * 0.3048) * (9 * 0.0254) * (12 * 0.0254) * 2"
  "slab_vol scenario_params = (1200 * 0.092903) * (5 * 0.0254) * 2"
  by (simp_all add: footing_vol_def pcc_vol_def column_vol_def beam_vol_def slab_vol_def
      scenario_params_def conv_defs)

lemma scenario_total_concrete: "total_concrete scenario_params = 45.88"
  by (simp add: total_concrete_def scenario_vols py_round_eval)

lemma scenario_grade:
  "cement_kg_per_m3 scenario_params = 320"
  "get_default mix_ratios (concrete_grade scenario_params) d = (1, 3 / 2, 3)"
  by (simp_all add: cement_kg_per_m3_def get_default_def cement_content_per_m3_def mix_ratios_def
      scenario_params_def)

lemma scenario_mix:
  "sand_vol scenario_params = (1.5 / 5.5) * 45.88"
  "agg_vol scenario_params = (3.0 / 5.5) * 45.88"
  by (simp_all add: sand_vol_def agg_vol_def scenario_grade scenario_total_concrete)

lemma scenario_walls:
  "total_wall_length scenario_params = (140 * 0.3048 + 80 * 0.3048) * 2"
  "wall_volume scenario_params = (140 * 0.3048 + 80 * 0.3048) * 2 * (9 * 0.0254) * (10 * 0.3048)"
  "mortar_parts scenario_params = (1.0, 6.0)"
  "plaster_area_internal scenario_params = (140 * 0.3048 + 80 * 0.3048) * 2 * (10 * 0.3048) * 0.8"
  "plaster_area_external scenario_params = (140 * 0.3048) * 2 * (10 * 0.3048)"
  by (simp_all add: total_wall_length_def wall_volume_def mortar_parts_def plaster_area_internal_def
      plaster_area_external_def get_default_def mortar_ratio_def scenario_params_def conv_defs)

lemma scenario_plaster:
  "total_plaster_vol scenario_params =
     (140 * 0.3048 + 80 * 0.3048) * 2 * (10 * 0.3048) * 0.8 * (0.5 * 0.0254)
     + (140 * 0.3048) * 2 * (10 * 0.3048) * (0.75 * 0.0254)"
  by (simp add: total_plaster_vol_def scenario_walls) (simp add: scenario_params_def conv_defs)

lemma scenario_concrete:
  "getq scenario_materials ''concrete'' ''footing_rcc'' = 3.62"
  "getq scenario_materials ''concrete'' ''pcc_volume'' = 0.91"
  "getq scenario_materials ''concrete'' ''total_rcc'' = 44.97"
  by (simp_all add: scenario_materials_def getq_build_concrete scenario_vols py_round_eval)

lemma scenario_cement: "getq scenario_materials ''cement'' ''total_bags'' = 399"
  by (simp add: scenario_materials_def getq_build_cement cement_bags_concrete_def
      cement_for_concrete_kg_def cement_for_mortar_bags_def cement_for_mortar_kg_def
      cement_for_plaster_bags_def cement_for_plaster_kg_def mortar_volume_def mortar_total_parts_def
      plaster_cement_part_def plaster_sand_part_def plaster_total_parts_def
      cement_bag_kg_def cement_bulk_density_kg_m3_def ceil_def
      scenario_total_concrete scenario_grade scenario_walls scenario_plaster py_round_eval)

lemmas const_defs = cement_bag_kg_def cement_bulk_density_kg_m3_def sand_bulk_density_kg_m3_def
  aggregate_bulk_density_kg_m3_def paint_coverage_m2_per_litre_def
  steel_footing_def steel_column_def steel_beam_def steel_slab_def
  plaster_cement_part_def plaster_sand_part_def plaster_total_parts_def

lemma scenario_sand:
  "getq scenario_materials ''sand'' ''concrete_sand_m3'' = 12.513"
  "getq scenario_materials ''sand'' ''brickwork_sand_m3'' = 8.01"
  "getq scenario_materials ''sand'' ''plaster_sand_m3'' = 6.831"
  "getq scenario_materials ''sand'' ''total_sand_kg'' = 43766.1"
  by (simp_all add: scenario_materials_def getq_build_sand sand_mass_kg_def mortar_sand_kg_def
      mortar_sand_vol_def plaster_sand_kg_def plaster_sand_vol_def mortar_volume_def
      mortar_total_parts_def const_defs scenario_mix scenario_walls scenario_plaster py_round_eval)

lemma scenario_aggregate:
  "getq scenario_materials ''aggregate'' ''concrete_aggregate_m3'' = 25.025"
  "getq scenario_materials ''aggregate'' ''total_aggregate_kg'' = 37538.2"
  by (simp_all add: scenario_materials_def getq_build_aggregate agg_mass_kg_def const_defs
      scenario_mix py_round_eval)

lemma scenario_steel: "getq scenario_materials ''steel'' ''total_steel_kg'' = 4766.3"
  by (simp add: scenario_materials_def getq_build_steel steel_for_footing_def steel_for_column_def
      steel_for_beam_def steel_for_slab_def const_defs scenario_vols py_round_eval)

lemma scenario_masonry: "getq scenario_materials ''masonry'' ''brick_quantity'' = 47106"
  by (simp add: scenario_materials_def getq_build_masonry scenario_walls py_round_eval)

lemma scenario_finishing:
  "getq scenario_materials ''finishing'' ''flooring_area_m2'' = 111.484"
  "getq scenario_materials ''finishing'' ''paint_liters'' = 117.43"
  "getq scenario_materials ''finishing'' ''plaster_volume_m3'' = 9.109"
  "getq scenario_materials ''finishing'' ''flooring_area_sqft'' = 1200"
  by (simp_all add: scenario_materials_def getq_build_finishing paint_required_l_def
      paint_area_m2_def const_defs scenario_walls scenario_plaster py_round_eval)
    (simp_all add: scenario_params_def conv_defs py_round_eval)

lemma scenario_volumes_m3:
  "sand_m3 scenario_materials = 27.354"
  "agg_m3 scenario_materials = 25.025"
  by (simp_all add: sand_m3_def agg_m3_def scenario_sand scenario_aggregate)

lemma itemize_scenario:
  "itemize scenario_materials default_rates =
     Inr [(''cement'', 167580), (''sand'', 32824.8), (''aggregate'', 22522.5),
          (''steel'', 309809.5), (''bricks'', 164871), (''tiles'', 33445.2),
          (''paint'', 58715), (''plaster'', 18218)]"
  by (simp add: itemize_def rate_of_def default_rates_def scenario_volumes_m3 scenario_cement
      scenario_steel scenario_masonry scenario_finishing)

lemma cost_scenario:
  "calculate_cost scenario_materials ''standard'' None =
     Inr \<lparr>itemized_costs =
            [(''cement'', 167580), (''sand'', 32824.8), (''aggregate'', 22522.5),
             (''steel'', 309809.5), (''bricks'', 164871), (''tiles'', 33445.2),
             (''paint'', 58715), (''plaster'', 18218)],
          material_costs =
            [(''cement'', 167580), (''sand'', 32824.8), (''aggregate'', 22522.5),
             (''steel'', 309809.5), (''bricks'', 164871), (''tiles'', 33445.2),
             (''paint'', 58715), (''plaster'', 18218)],
          applied_rates = default_rates,
          total_material_cost = 807986,
          cost_per_sqft = Some 673.32,
          total_built_area_sqft = 1200\<rparr>"
proof -
  have b: "plan_rates ''standard'' (base_rates None) = default_rates"
    by (simp add: plan_rates_def base_rates_def)
  show ?thesis
    unfolding calculate_cost_def Let_def b itemize_scenario
    by (simp add: per_sqft_cases scenario_finishing round_items_def py_round_eval)
qed

text \<open>
  C3 (as amended): on the scenario input, \<open>calculate_materials\<close> returns a snapshot whose
  \<open>footing_rcc\<close> is the 2-decimal rounding of 8 x (4 x 0.3048) x (4 x 0.3048) x (1 x 0.3048),
  that is 3.62 cubic metres, with cement bags, sand, aggregate and steel totals all
  positive; \<open>calculate_cost\<close> on that snapshot with the default rates returns a positive
  \<open>total_material_cost\<close> (807986) and \<open>cost_per_sqft\<close> equal to the 2-decimal rounding of the
  total divided by 1200 (673.32).
\<close>

theorem scenario_estimate:
  "calculate_materials scenario = Inr scenario_materials
   \<and> getq scenario_materials ''concrete'' ''footing_rcc''
       = py_round 2 (8 * (4 * 0.3048) * (4 * 0.3048) * (1 * 0.3048))
   \<and> getq scenario_materials ''concrete'' ''footing_rcc'' = 3.62
   \<and> 0 < getq scenario_materials ''cement'' ''total_bags''
   \<and> 0 < getq scenario_materials ''sand'' ''total_sand_kg''
   \<and> 0 < getq scenario_materials ''aggregate'' ''total_aggregate_kg''
   \<and> 0 < getq scenario_materials ''steel'' ''total_steel_kg''
   \<and> (\<exists>r. calculate_cost scenario_materials ''standard'' None = Inr r
          \<and> 0 < total_material_cost r
          \<and> total_material_cost r = 807986
          \<and> cost_per_sqft r = Some (py_round 2 (total_material_cost r / 1200))
          \<and> cost_per_sqft r = Some 673.32)"
  by (simp add: calculate_scenario scenario_concrete scenario_cement scenario_sand
      scenario_aggregate scenario_steel cost_scenario py_round_eval)

text \<open>
  C3 as stated fails in its figure: the product is below 3.63 and \<open>footing_rcc\<close> is 3.62,
  more than 10 away from the 14.24 of the specification.
\<close>

theorem scenario_footing_counterexample:
  "calculate_materials scenario = Inr scenario_materials
   \<and> getq scenario_materials ''concrete'' ''footing_rcc'' = 3.62
   \<and> (8 * (4 * 0.3048) * (4 * 0.3048) * (1 * 0.3048) :: real) < 3.63
   \<and> \<not> \<bar>getq scenario_materials ''concrete'' ''footing_rcc'' - 14.24\<bar> \<le> 10"
  by (simp add: calculate_scenario scenario_concrete)

text \<open>
  C8 on the scenario: \<open>calculate_materials\<close> rounds \<open>concrete_sand_m3\<close> to 3 decimals
  (12.513) and \<open>concrete_aggregate_m3\<close> likewise (25.025); \<open>generate_plan_variants\<close> re-rounds
  the scaled values to 1 decimal (13.5 for economy, 23.8 for premium), where 3 decimals
  would give 13.514 and 23.774.
\<close>

theorem sand_volume_precision_lost:
  "calculate_materials scenario = Inr scenario_materials
   \<and> getq scenario_materials ''sand'' ''concrete_sand_m3'' = 12.513
   \<and> getq (generate_plan_variants scenario_materials ''economy'') ''sand'' ''concrete_sand_m3''
       = 13.5
   \<and> py_round 3 (12.513 * 1.08) = 13.514
   \<and> getq scenario_materials ''aggregate'' ''concrete_aggregate_m3'' = 25.025
   \<and> getq (generate_plan_variants scenario_materials ''premium'') ''aggregate''
        ''concrete_aggregate_m3'' = 23.8
   \<and> py_round 3 (25.025 * 0.95) = 23.774"
  by (simp add: calculate_scenario scenario_sand scenario_aggregate getq_generate_plan_variants
      factor_values adjusted_digits_def py_round_eval)

subsection \<open>Conversions of text\<close>

lemmas text_defs = py_float_def py_int_def float_text_def int_text_def strip_def is_space_def
  take_sign_def is_digit_def digit_val_def digits_value_def exponent_factor_def lower_char_def

lemma conversion_examples:
  "py_float (PStr ''30'') = Inr 30"
  "py_int (PStr ''30'') = Inr 30"
  "py_float (PStr ''2.5'') = Inr 2.5"
  "py_int (PStr ''2.5'') = Inl ValueError"
  "py_int (PNum 2.5) = Inr 2"
  "py_float (PStr ''0.75'') = Inr 0.75"
  "py_float (PStr '' 1e3 '') = Inr 1000"
  "py_float (PStr ''1_000'') = Inr 1000"
  "py_float (PStr '''') = Inl ValueError"
  "py_float (PStr ''abc'') = Inl ValueError"
  "py_float (PStr ''nan'') = Inl NonFinite"
  by (simp_all add: text_defs py_trunc_def)

text \<open>The scenario gives the same snapshot when its fields arrive as text.\<close>

lemma read_scenario_form: "read_inputs scenario_form = Inr scenario_params"
  by (simp add: read_inputs_def int_of_def float_of_def subscript_def get_default_def
      float_get_def int_get_def py_lower_def text_defs py_trunc_def scenario_form_def
      scenario_params_def)

lemma calculate_scenario_form: "calculate_materials scenario_form = Inr scenario_materials"
  by (simp add: calculate_materials_def read_scenario_form compute_scenario)

subsection \<open>The plan order on a small building\<close>

lemma read_shed: "read_inputs shed = Inr shed_params"
  by (simp add: read_defs shed_def shed_params_def)

lemma compute_shed: "compute_materials shed_params = Inr shed_materials"
  by (simp add: compute_materials_def bricks_per_m3_def tiles_required_def tile_area_sqft_def
      py_div_def shed_params_def shed_materials_def)

lemma calculate_shed: "calculate_materials shed = Inr shed_materials"
  by (simp add: calculate_materials_def read_shed compute_shed)

lemma shed_vols:
  "footing_vol shed_params = 4 * (1 * 0.3048) * (1 * 0.3048) * (0.5 * 0.3048)"
  "pcc_vol shed_params = 4 * (1 * 0.3048) * (1 * 0.3048) * (2 * 0.0254)"
  "column_vol shed_params = 4 * 1 * (4 * 0.0254) * (4 * 0.0254) * (7 * 0.3048)"
  "beam_vol shed_params = (24 * 0.3048) * (4 * 0.0254) * (4 * 0.0254) * 1"
  "slab_vol shed_params = (36 * 0.092903) * (4 * 0.0254) * 1"
  by (simp_all add: footing_vol_def pcc_vol_def column_vol_def beam_vol_def slab_vol_def
      shed_params_def conv_defs)

lemma shed_total_concrete: "total_concrete shed_params = 0.58"
  by (simp add: total_concrete_def shed_vols py_round_eval)

lemma shed_grade: "get_default mix_ratios (concrete_grade shed_params) d = (1, 3 / 2, 3)"
  by (simp add: get_default_def mix_ratios_def shed_params_def)

lemma shed_mix:
  "sand_vol shed_params = (1.5 / 5.5) * 0.58"
  "agg_vol shed_params = (3.0 / 5.5) * 0.58"
  by (simp_all add: sand_vol_def agg_vol_def shed_grade shed_total_concrete)

lemma shed_volumes:
  "getq shed_materials ''sand'' ''concrete_sand_m3'' = 0.158"
  "getq shed_materials ''aggregate'' ''concrete_aggregate_m3'' = 0.316"
  by (simp_all add: shed_materials_def getq_build_sand getq_build_aggregate shed_mix
      py_round_eval)

text \<open>
  C7 on the shed: \<open>calculate_materials\<close> gives 0.158 cubic metres of concrete sand and
  0.316 of aggregate, which the standard plan keeps. The premium plan turns the sand into
  \<^verbatim>\<open>round(0.1501, 1)\<close>, that is 0.2, above the standard value; the economy plan turns the
  aggregate into \<^verbatim>\<open>round(0.34128, 1)\<close>, that is 0.3, below the standard value. Rounded to
  the 3 decimals that \<open>calculate_materials\<close> gives these fields, the scaled values would be
  0.15 and 0.341, and the order economy \<open>\<ge>\<close> standard \<open>\<ge>\<close> premium would hold.
\<close>

theorem plan_order_broken_on_volumes:
  "calculate_materials shed = Inr shed_materials
   \<and> getq (generate_plan_variants shed_materials ''standard'') ''sand'' ''concrete_sand_m3''
       = 0.158
   \<and> getq (generate_plan_variants shed_materials ''premium'') ''sand'' ''concrete_sand_m3''
       = 0.2
   \<and> \<not> (getq (generate_plan_variants shed_materials ''standard'') ''sand'' ''concrete_sand_m3''
          \<ge> getq (generate_plan_variants shed_materials ''premium'') ''sand''
               ''concrete_sand_m3'')
   \<and> getq (generate_plan_variants shed_materials ''standard'') ''aggregate''
        ''concrete_aggregate_m3'' = 0.316
   \<and> getq (generate_plan_variants shed_materials ''economy'') ''aggregate''
        ''concrete_aggregate_m3'' = 0.3
   \<and> \<not> (getq (generate_plan_variants shed_materials ''economy'') ''aggregate''
            ''concrete_aggregate_m3''
          \<ge> getq (generate_plan_variants shed_materials ''standard'') ''aggregate''
               ''concrete_aggregate_m3'')
   \<and> py_round 3 (0.158 * 0.95) = 0.15
   \<and> py_round 3 (0.316 * 1.08) = 0.341"
  by (simp add: calculate_shed getq_standard getq_generate_plan_variants factor_values
      adjusted_digits_def shed_volumes py_round_eval)

end
